theory Spec2Isabelle
  imports Main "HOL-Library.Sublist"
begin

section \<open>Chat with Database: the embedding of \<^verbatim>\<open>app.py\<close>\<close>

text \<open>
  The program is a Streamlit script of three classes: \<^verbatim>\<open>DatabaseConnector\<close>,
  \<^verbatim>\<open>SQLAssistant\<close> and \<^verbatim>\<open>ChatApp\<close>. Everything it computes goes through
  libraries that are not part of the source (the database driver, the LangChain runnables,
  the hosted model, Streamlit). The embedding therefore takes the library calls as
  parameters (the record \<open>env\<close>), threads an abstract external world \<open>'w\<close> through
  them, and records every library call in a log, in the order the script makes them.
  What the source itself decides is modelled in full: the connection string, the shape of
  the two chains, which calls are inside a \<^verbatim>\<open>try\<close>, what is appended to the chat
  history and when.
\<close>

subsection \<open>Messages, exceptions, values\<close>

text \<open>\<^verbatim>\<open>langchain.schema.AIMessage\<close> and \<^verbatim>\<open>HumanMessage\<close>: a role and the text.\<close>

datatype message = AIMessage (content: string) | HumanMessage (content: string)

text \<open>
  An instance of Python's \<^verbatim>\<open>Exception\<close>, which is what \<^verbatim>\<open>except Exception\<close>
  catches. The argument is the text \<^verbatim>\<open>str(e)\<close> yields. \<open>LibraryError\<close> is any
  exception raised inside a library call (driver, model API, quota, rejected SQL).
\<close>

datatype exn = KeyError string | AttributeError string | LibraryError string

fun str_exn :: "exn \<Rightarrow> string" where
  "str_exn (KeyError t) = t"
| "str_exn (AttributeError t) = t"
| "str_exn (LibraryError t) = t"

text \<open>The values stored in the dictionaries that flow through a chain.\<close>

datatype pyval = Str string | Messages "message list"

type_synonym dict = "string \<rightharpoonup> pyval"

subsection \<open>Prompt templates\<close>

text \<open>
  A template is its text, cut at the placeholders. Formatting replaces each placeholder by
  the value bound to it in the input dictionary and fails with \<^verbatim>\<open>KeyError\<close> when
  one is missing; keys of the dictionary that the template does not name are ignored. The
  formatted prompt keeps the values as they are (the rendering of a message list as text
  is the library's).
\<close>

datatype segment = Lit string | Var string

type_synonym ChatPromptTemplate = "segment list"

datatype piece = Text string | Val pyval

type_synonym prompt_value = "piece list"

fun format_prompt :: "ChatPromptTemplate \<Rightarrow> dict \<Rightarrow> exn + prompt_value" where
  "format_prompt [] d = Inr []"
| "format_prompt (Lit t # segs) d =
     (case format_prompt segs d of Inl e \<Rightarrow> Inl e | Inr p \<Rightarrow> Inr (Text t # p))"
| "format_prompt (Var v # segs) d =
     (case d v of
        None \<Rightarrow> Inl (KeyError v)
      | Some x \<Rightarrow> (case format_prompt segs d of Inl e \<Rightarrow> Inl e | Inr p \<Rightarrow> Inr (Val x # p)))"

text \<open>The template of \<^verbatim>\<open>get_sql_chain\<close> (lines 31 to 40). It has no placeholder for the question.\<close>

definition template :: ChatPromptTemplate where
  "template =
    [Lit ''\<newline>        You are a data analyst at a company. You are interacting with a user who is asking you questions about the company's database.\<newline>        Based on the table schema below, write a SQL query that would answer the user's question. Take the conversation history into account.\<newline>        \<newline>        <SCHEMA>'',
     Var ''schema'',
     Lit ''</SCHEMA>\<newline>        \<newline>        Conversation History: '',
     Var ''chat_history'',
     Lit ''\<newline>        \<newline>        Write only the SQL query and nothing else. Do not wrap the SQL query in any other text, not even backticks.\<newline>        '']"

text \<open>The template of \<^verbatim>\<open>generate_response\<close> (lines 58 to 67).\<close>

definition response_template :: ChatPromptTemplate where
  "response_template =
    [Lit ''\<newline>        You are a data analyst at a company. You are interacting with a user who is asking you questions about the company's database.\<newline>        Based on the table schema below, question, SQL query, and SQL response, write a natural language response.\<newline>        <SCHEMA>'',
     Var ''schema'',
     Lit ''</SCHEMA>\<newline>\<newline>        Conversation History: '',
     Var ''chat_history'',
     Lit ''\<newline>        SQL Query: <SQL>'',
     Var ''query'',
     Lit ''</SQL>\<newline>        User question: '',
     Var ''question'',
     Lit ''\<newline>        SQL Response: '',
     Var ''response'',
     Lit ''\<newline>        '']"

subsection \<open>The libraries, the world and the log\<close>

text \<open>The model client: the two arguments its constructor is given.\<close>

record ChatGoogleGenerativeAI =
  model :: string
  google_api_key :: "string option"

text \<open>
  One event per library call, and one (\<open>Raised\<close>) for every exception a library call
  raises. \<open>'h\<close> is the type of connection handles (\<^verbatim>\<open>SQLDatabase\<close> objects).
\<close>

datatype 'h event =
    Load_dotenv
  | From_uri string
  | Get_table_info 'h
  | Db_run 'h pyval
  | New_llm string "string option"
  | Llm_invoke ChatGoogleGenerativeAI prompt_value
  | St_set_page_config string string
  | St_title string
  | Sidebar_subheader string
  | Sidebar_text_input string string bool
  | Sidebar_button string
  | St_spinner string
  | St_success string
  | St_error string
  | St_chat_message string
  | St_markdown string
  | St_write string
  | St_chat_input string
  | Raised exn

text \<open>
  The library calls whose results the script uses. Each may raise, and each may change
  the world (the database's contents, the quota of the model API). \<open>getenv\<close> is the
  process environment after \<^verbatim>\<open>load_dotenv()\<close>. \<open>new_llm\<close> is the constructor of the
  model client: \<open>None\<close> when it returns, \<open>Some e\<close> when it raises.
\<close>

record ('h, 'w) env =
  getenv :: "string \<Rightarrow> string option"
  from_uri :: "string \<Rightarrow> 'w \<Rightarrow> (exn + 'h) \<times> 'w"
  get_table_info :: "'h \<Rightarrow> 'w \<Rightarrow> (exn + string) \<times> 'w"
  db_run :: "'h \<Rightarrow> pyval \<Rightarrow> 'w \<Rightarrow> (exn + string) \<times> 'w"
  new_llm :: "string \<Rightarrow> string option \<Rightarrow> 'w \<Rightarrow> exn option \<times> 'w"
  llm_invoke :: "ChatGoogleGenerativeAI \<Rightarrow> prompt_value \<Rightarrow> 'w \<Rightarrow> (exn + string) \<times> 'w"

text \<open>
  What one execution of the script receives from the browser: the contents of the sidebar's
  text fields where the user has changed them, whether the Connect button was pressed,
  and the line submitted in the chat input, if any.
\<close>

record ui =
  typed :: "string \<rightharpoonup> string"
  connect_clicked :: bool
  chat :: "string option"

text \<open>
  The state the script runs on. \<open>chat_history\<close>, \<open>db\<close> and \<open>widgets\<close> are
  \<^verbatim>\<open>st.session_state\<close>, which outlives one execution of the script: \<open>None\<close> is a key
  that is not in the session, \<open>db = Some None\<close> is the value \<^verbatim>\<open>None\<close>.
  \<open>connector_db\<close> is the field \<^verbatim>\<open>db\<close> of the app's \<^verbatim>\<open>DatabaseConnector\<close>.
\<close>

record ('h, 'w) state =
  chat_history :: "message list option"
  db :: "'h option option"
  widgets :: "string \<rightharpoonup> string"
  connector_db :: "'h option"
  ext :: 'w
  log :: "'h event list"

subsection \<open>Sequencing with exceptions\<close>

type_synonym ('a, 's) io = "'s \<Rightarrow> (exn + 'a) \<times> 's"

definition io_return :: "'a \<Rightarrow> ('a, 's) io" where
  "io_return x s = (Inr x, s)"

definition io_raise :: "exn \<Rightarrow> ('a, 's) io" where
  "io_raise e s = (Inl e, s)"

definition io_bind :: "('a, 's) io \<Rightarrow> ('a \<Rightarrow> ('b, 's) io) \<Rightarrow> ('b, 's) io" where
  "io_bind m f s = (case m s of (Inl e, s') \<Rightarrow> (Inl e, s') | (Inr x, s') \<Rightarrow> f x s')"

definition io_seq :: "('a, 's) io \<Rightarrow> ('b, 's) io \<Rightarrow> ('b, 's) io" where
  "io_seq m n = io_bind m (\<lambda>_. n)"

text \<open>\<^verbatim>\<open>try: m except Exception as e: h(e)\<close>. The state changes made before the raise stay.\<close>

definition io_try :: "('a, 's) io \<Rightarrow> (exn \<Rightarrow> ('a, 's) io) \<Rightarrow> ('a, 's) io" where
  "io_try m h s = (case m s of (Inl e, s') \<Rightarrow> h e s' | (Inr x, s') \<Rightarrow> (Inr x, s'))"

text \<open>A Streamlit call that only draws: it is logged.\<close>

definition emit :: "'h event \<Rightarrow> (unit, ('h, 'w) state) io" where
  "emit ev s = (Inr (), s\<lparr>log := log s @ [ev]\<rparr>)"

text \<open>
  A call into a library: it is logged, followed by the exception when it raises, and it
  returns or raises as the library does.
\<close>

definition external :: "'h event \<Rightarrow> ('w \<Rightarrow> (exn + 'a) \<times> 'w) \<Rightarrow> ('a, ('h, 'w) state) io" where
  "external ev f s =
     (case f (ext s) of
        (Inl e, w') \<Rightarrow> (Inl e, s\<lparr>ext := w', log := log s @ [ev, Raised e]\<rparr>)
      | (Inr x, w') \<Rightarrow> (Inr x, s\<lparr>ext := w', log := log s @ [ev]\<rparr>))"

subsection \<open>\<^verbatim>\<open>DatabaseConnector\<close>\<close>

definition db_uri :: "string \<Rightarrow> string \<Rightarrow> string \<Rightarrow> string \<Rightarrow> string \<Rightarrow> string" where
  "db_uri user password host port database =
     ''mysql+mysqlconnector://'' @ user @ '':'' @ password @ ''@'' @ host @ '':'' @ port
       @ ''/'' @ database"

definition connect ::
  "('h, 'w) env \<Rightarrow> string \<Rightarrow> string \<Rightarrow> string \<Rightarrow> string \<Rightarrow> string \<Rightarrow> ('h, ('h, 'w) state) io"
where
  "connect E user password host port database =
     io_bind
       (external (From_uri (db_uri user password host port database))
          (from_uri E (db_uri user password host port database)))
       (\<lambda>h s. (Inr h, s\<lparr>connector_db := Some h\<rparr>))"

subsection \<open>Runnables\<close>

text \<open>
  \<^verbatim>\<open>a | b\<close>: invoke \<open>a\<close>, then \<open>b\<close> on what it returns; a raise in either ends
  the chain.
\<close>

definition pipe :: "('a \<Rightarrow> ('b, 's) io) \<Rightarrow> ('b \<Rightarrow> ('c, 's) io) \<Rightarrow> 'a \<Rightarrow> ('c, 's) io" where
  "pipe f g x = io_bind (f x) g"

text \<open>
  The steps of one \<^verbatim>\<open>assign(k1=f1, k2=f2, ...)\<close>. The library submits every step on the
  same input and then collects the results in the order of the keys, so every step runs,
  also after an earlier one has raised, and the exception that comes out is the first one
  in the order of the keys. The steps are modelled one after the other in that order.
\<close>

fun parallel :: "(string \<times> (dict \<Rightarrow> (pyval, 's) io)) list \<Rightarrow> dict \<Rightarrow> (dict, 's) io" where
  "parallel [] d s = (Inr Map.empty, s)"
| "parallel ((k, f) # steps) d s =
     (case f d s of (r, s1) \<Rightarrow>
        (case parallel steps d s1 of (rs, s2) \<Rightarrow>
           ((case r of
               Inl e \<Rightarrow> Inl e
             | Inr v \<Rightarrow> (case rs of Inl e \<Rightarrow> Inl e | Inr m \<Rightarrow> Inr (m(k \<mapsto> v)))), s2)))"

text \<open>\<^verbatim>\<open>RunnablePassthrough.assign(...)\<close>: the input dictionary, extended by the results.\<close>

definition assign :: "(string \<times> (dict \<Rightarrow> (pyval, 's) io)) list \<Rightarrow> dict \<Rightarrow> (dict, 's) io" where
  "assign steps d = io_bind (parallel steps d) (\<lambda>m. io_return (d ++ m))"

definition prompt_invoke :: "ChatPromptTemplate \<Rightarrow> dict \<Rightarrow> (prompt_value, 's) io" where
  "prompt_invoke t d = (case format_prompt t d of Inl e \<Rightarrow> io_raise e | Inr p \<Rightarrow> io_return p)"

text \<open>The model call; its result is the text of the message the model returns.\<close>

definition llm_call ::
  "('h, 'w) env \<Rightarrow> ChatGoogleGenerativeAI \<Rightarrow> prompt_value \<Rightarrow> (string, ('h, 'w) state) io"
where
  "llm_call E llm p = external (Llm_invoke llm p) (llm_invoke E llm p)"

text \<open>\<^verbatim>\<open>StrOutputParser()\<close> hands that text on.\<close>

definition StrOutputParser :: "string \<Rightarrow> (string, 's) io" where
  "StrOutputParser t = io_return t"

text \<open>\<^verbatim>\<open>ChatGoogleGenerativeAI(model=m, google_api_key=k)\<close>.\<close>

definition new_ChatGoogleGenerativeAI ::
  "('h, 'w) env \<Rightarrow> string \<Rightarrow> string option \<Rightarrow> (ChatGoogleGenerativeAI, ('h, 'w) state) io"
where
  "new_ChatGoogleGenerativeAI E m k =
     external (New_llm m k)
       (\<lambda>w. case new_llm E m k w of
               (Some e, w') \<Rightarrow> (Inl e, w')
             | (None, w') \<Rightarrow> (Inr \<lparr>model = m, google_api_key = k\<rparr>, w'))"

text \<open>\<^verbatim>\<open>db.get_table_info()\<close> and \<^verbatim>\<open>db.run(c)\<close>, as values of a dictionary.\<close>

definition table_info :: "('h, 'w) env \<Rightarrow> 'h \<Rightarrow> (pyval, ('h, 'w) state) io" where
  "table_info E h = io_bind (external (Get_table_info h) (get_table_info E h)) (\<lambda>t. io_return (Str t))"

definition run_command :: "('h, 'w) env \<Rightarrow> 'h \<Rightarrow> pyval \<Rightarrow> (pyval, ('h, 'w) state) io" where
  "run_command E h c = io_bind (external (Db_run h c) (db_run E h c)) (\<lambda>t. io_return (Str t))"

text \<open>\<^verbatim>\<open>vars[k]\<close>.\<close>

definition getitem :: "dict \<Rightarrow> string \<Rightarrow> (pyval, 's) io" where
  "getitem d k = (case d k of None \<Rightarrow> io_raise (KeyError k) | Some v \<Rightarrow> io_return v)"

subsection \<open>\<^verbatim>\<open>SQLAssistant\<close>\<close>

record SQLAssistant =
  gemini_api_key :: "string option"

text \<open>The chain that \<^verbatim>\<open>get_sql_chain\<close> returns (lines 47 to 52), given the model client.\<close>

definition sql_chain ::
  "('h, 'w) env \<Rightarrow> 'h \<Rightarrow> ChatGoogleGenerativeAI \<Rightarrow> dict \<Rightarrow> (string, ('h, 'w) state) io"
where
  "sql_chain E h llm =
     pipe (pipe (pipe
       (assign [(''schema'', \<lambda>_. table_info E h)])
       (prompt_invoke template))
       (llm_call E llm))
       StrOutputParser"

text \<open>
  \<^verbatim>\<open>get_sql_chain\<close> builds the chain and returns it; nothing of the chain runs here.
  The constructor of the model client does run here.
\<close>

definition get_sql_chain ::
  "('h, 'w) env \<Rightarrow> SQLAssistant \<Rightarrow> 'h \<Rightarrow> (dict \<Rightarrow> (string, ('h, 'w) state) io, ('h, 'w) state) io"
where
  "get_sql_chain E self h =
     io_bind (new_ChatGoogleGenerativeAI E ''gemini-1.5-pro'' (gemini_api_key self)) (\<lambda>llm.
       io_return (sql_chain E h llm))"

definition error_message :: string where
  "error_message =
     ''An error occurred while processing your request. ''
     @ ''This could be due to hitting the API limit or other issues. Please try again later.''"

text \<open>
  The chain of \<^verbatim>\<open>generate_response\<close> (lines 71 to 79), given the SQL chain and the
  second model client.
\<close>

definition response_chain ::
  "('h, 'w) env \<Rightarrow> 'h \<Rightarrow> (dict \<Rightarrow> (string, ('h, 'w) state) io) \<Rightarrow> ChatGoogleGenerativeAI
     \<Rightarrow> dict \<Rightarrow> (string, ('h, 'w) state) io"
where
  "response_chain E h chain llm =
     pipe (pipe (pipe (pipe
       (assign [(''query'', \<lambda>d. io_bind (chain d) (\<lambda>q. io_return (Str q)))])
       (assign [(''schema'', \<lambda>_. table_info E h),
                (''response'', \<lambda>vars. io_bind (getitem vars ''query'') (run_command E h))]))
       (prompt_invoke response_template))
       (llm_call E llm))
       StrOutputParser"

text \<open>
  \<^verbatim>\<open>generate_response\<close>. Lines 56 to 79 build the two chains outside the
  \<^verbatim>\<open>try\<close>; only \<^verbatim>\<open>chain.invoke\<close> is inside it.
\<close>

definition generate_response ::
  "('h, 'w) env \<Rightarrow> SQLAssistant \<Rightarrow> string \<Rightarrow> 'h \<Rightarrow> message list \<Rightarrow> (string, ('h, 'w) state) io"
where
  "generate_response E self user_query h history =
     io_bind (get_sql_chain E self h) (\<lambda>chain.
     io_bind (new_ChatGoogleGenerativeAI E ''gemini-1.5-pro'' (gemini_api_key self)) (\<lambda>llm.
       io_try
         (response_chain E h chain llm
            [''question'' \<mapsto> Str user_query, ''chat_history'' \<mapsto> Messages history])
         (\<lambda>e. io_seq (emit (St_error error_message)) (io_return error_message))))"

subsection \<open>\<^verbatim>\<open>ChatApp\<close>\<close>

record ChatApp =
  app_gemini_api_key :: "string option"
  sql_assistant :: SQLAssistant

definition greeting :: string where
  "greeting = ''Hello! I'm SQL assistant. Ask me anything about your database.''"

definition init_session_state :: "(unit, ('h, 'w) state) io" where
  "init_session_state s =
     (let s1 = (if chat_history s = None then s\<lparr>chat_history := Some [AIMessage greeting]\<rparr> else s);
          s2 = (if db s1 = None then s1\<lparr>db := Some None\<rparr> else s1)
      in (Inr (), s2))"

text \<open>
  \<^verbatim>\<open>ChatApp.__init__\<close>: a new app object, with a new connector, is made by every
  execution of the script.
\<close>

definition new_ChatApp :: "('h, 'w) env \<Rightarrow> (ChatApp, ('h, 'w) state) io" where
  "new_ChatApp E =
     io_seq (emit Load_dotenv)
    (io_seq (\<lambda>s. (Inr (), s\<lparr>connector_db := None\<rparr>))
    (io_seq init_session_state
       (io_return \<lparr>app_gemini_api_key = getenv E ''GEMINI_API_KEY'',
                   sql_assistant = \<lparr>gemini_api_key = getenv E ''GEMINI_API_KEY''\<rparr>\<rparr>)))"

text \<open>
  \<^verbatim>\<open>st.sidebar.text_input(label, value=v, key=k)\<close>: the session holds under \<open>k\<close> what
  the field shows, the default \<open>v\<close> unless the user has typed something else.
\<close>

definition shown :: "ui \<Rightarrow> string \<Rightarrow> string \<Rightarrow> string" where
  "shown u k v = (case typed u k of None \<Rightarrow> v | Some t \<Rightarrow> t)"

definition text_input :: "ui \<Rightarrow> string \<Rightarrow> string \<Rightarrow> bool \<Rightarrow> string \<Rightarrow> (unit, ('h, 'w) state) io" where
  "text_input u label v masked k s =
     (Inr (), s\<lparr>widgets := (widgets s)(k \<mapsto> shown u k v),
               log := log s @ [Sidebar_text_input label v masked]\<rparr>)"

text \<open>\<^verbatim>\<open>st.session_state[k]\<close> for the key of a field.\<close>

definition session_getitem :: "string \<Rightarrow> (string, ('h, 'w) state) io" where
  "session_getitem k s = (case widgets s k of None \<Rightarrow> (Inl (KeyError k), s) | Some v \<Rightarrow> (Inr v, s))"

definition sidebar :: "('h, 'w) env \<Rightarrow> ui \<Rightarrow> (unit, ('h, 'w) state) io" where
  "sidebar E u =
     io_seq (emit (Sidebar_subheader ''Settings''))
    (io_seq (text_input u ''Host'' ''localhost'' False ''Host'')
    (io_seq (text_input u ''Port'' ''3306'' False ''Port'')
    (io_seq (text_input u ''User'' ''root'' False ''User'')
    (io_seq (text_input u ''Password'' ''admin'' True ''Password'')
    (io_seq (text_input u ''Database'' ''chinook'' False ''Database'')
    (io_seq (emit (Sidebar_button ''Connect''))
       (if connect_clicked u then
          io_seq (emit (St_spinner ''Connecting to database...''))
            (io_try
               (io_bind (session_getitem ''User'') (\<lambda>user.
                io_bind (session_getitem ''Password'') (\<lambda>password.
                io_bind (session_getitem ''Host'') (\<lambda>host.
                io_bind (session_getitem ''Port'') (\<lambda>port.
                io_bind (session_getitem ''Database'') (\<lambda>database.
                io_bind (connect E user password host port database) (\<lambda>h.
                io_seq (\<lambda>s. (Inr (), s\<lparr>db := Some (Some h)\<rparr>))
                       (emit (St_success ''Connected to the database!'')))))))))
               (\<lambda>e. emit (St_error (''Failed to connect: '' @ str_exn e))))
        else io_return ())))))))"

text \<open>\<^verbatim>\<open>st.session_state.chat_history\<close>: an \<^verbatim>\<open>AttributeError\<close> when the key is not set.\<close>

definition get_chat_history :: "(message list, ('h, 'w) state) io" where
  "get_chat_history s =
     (case chat_history s of
        None \<Rightarrow> (Inl (AttributeError ''chat_history''), s)
      | Some hist \<Rightarrow> (Inr hist, s))"

definition get_db :: "('h option, ('h, 'w) state) io" where
  "get_db s = (case db s of None \<Rightarrow> (Inl (AttributeError ''db''), s) | Some d \<Rightarrow> (Inr d, s))"

text \<open>\<^verbatim>\<open>st.session_state.chat_history.append(m)\<close>.\<close>

definition append_message :: "message \<Rightarrow> (unit, ('h, 'w) state) io" where
  "append_message m =
     io_bind get_chat_history (\<lambda>hist s. (Inr (), s\<lparr>chat_history := Some (hist @ [m])\<rparr>))"

fun display_message :: "message \<Rightarrow> (unit, ('h, 'w) state) io" where
  "display_message (AIMessage t) = io_seq (emit (St_chat_message ''AI'')) (emit (St_markdown t))"
| "display_message (HumanMessage t) = io_seq (emit (St_chat_message ''Human'')) (emit (St_write t))"

fun display_all :: "message list \<Rightarrow> (unit, ('h, 'w) state) io" where
  "display_all [] = io_return ()"
| "display_all (m # ms) = io_seq (display_message m) (display_all ms)"

definition display_chat_history :: "(unit, ('h, 'w) state) io" where
  "display_chat_history = io_bind get_chat_history display_all"

text \<open>
  \<^verbatim>\<open>handle_user_query\<close>. \<^verbatim>\<open>st.chat_input\<close> returns \<^verbatim>\<open>None\<close> or the submitted line;
  \<^verbatim>\<open>if user_query:\<close> is false for \<^verbatim>\<open>None\<close> and for the empty string. A handle is an
  object, so \<^verbatim>\<open>if st.session_state.db:\<close> is false only for \<^verbatim>\<open>None\<close>.
\<close>

definition handle_user_query :: "('h, 'w) env \<Rightarrow> ChatApp \<Rightarrow> ui \<Rightarrow> (unit, ('h, 'w) state) io" where
  "handle_user_query E self u =
     io_seq (emit (St_chat_input ''Type a message...''))
       (case chat u of
          None \<Rightarrow> io_return ()
        | Some user_query \<Rightarrow>
            if user_query = [] then io_return ()
            else
              io_seq (append_message (HumanMessage user_query))
             (io_seq (emit (St_chat_message ''Human''))
             (io_seq (emit (St_markdown user_query))
             (io_seq (emit (St_chat_message ''AI''))
             (io_bind get_db (\<lambda>d.
                case d of
                  Some h \<Rightarrow>
                    io_bind get_chat_history (\<lambda>hist.
                    io_bind (generate_response E (sql_assistant self) user_query h hist) (\<lambda>response.
                    io_seq (emit (St_markdown response))
                           (append_message (AIMessage response))))
                | None \<Rightarrow>
                    emit (St_error ''Database not connected. Please connect to the database first.'')))))))"

definition run :: "('h, 'w) env \<Rightarrow> ChatApp \<Rightarrow> ui \<Rightarrow> (unit, ('h, 'w) state) io" where
  "run E self u =
     io_seq (emit (St_set_page_config ''Chat with Database'' '':speech_balloon:''))
    (io_seq (emit (St_title ''Chat with Database''))
    (io_seq (sidebar E u)
    (io_seq display_chat_history
            (handle_user_query E self u))))"

text \<open>One execution of the script: \<^verbatim>\<open>app = ChatApp(); app.run()\<close>.\<close>

definition script :: "('h, 'w) env \<Rightarrow> ui \<Rightarrow> (unit, ('h, 'w) state) io" where
  "script E u = io_bind (new_ChatApp E) (\<lambda>app. run E app u)"

text \<open>
  A session: the script is executed once for every interaction, on the state the previous
  execution left. An exception that leaves the script is shown by Streamlit; the session
  state stays as it is and the next interaction runs the script again.
\<close>

fun session :: "('h, 'w) env \<Rightarrow> ui list \<Rightarrow> ('h, 'w) state \<Rightarrow> ('h, 'w) state" where
  "session E [] s = s"
| "session E (u # us) s = session E us (snd (script E u s))"

text \<open>A new session: nothing is set and nothing has happened.\<close>

definition fresh :: "'w \<Rightarrow> ('h, 'w) state" where
  "fresh w = \<lparr>chat_history = None, db = None, widgets = Map.empty, connector_db = None,
              ext = w, log = []\<rparr>"

section \<open>Notions used in the statements\<close>

subsection \<open>The formatted prompts\<close>

text \<open>
  What formatting yields when every placeholder of the template is bound: the template
  with each placeholder replaced by its value.
\<close>

fun fill :: "dict \<Rightarrow> segment \<Rightarrow> piece" where
  "fill d (Lit t) = Text t"
| "fill d (Var v) = Val (case d v of None \<Rightarrow> Str [] | Some x \<Rightarrow> x)"

fun bound :: "dict \<Rightarrow> segment \<Rightarrow> bool" where
  "bound d (Lit t) = True"
| "bound d (Var v) = (d v \<noteq> None)"

text \<open>The prompt of the SQL-generation call, for a question, a history and a schema.\<close>

definition sql_prompt :: "string \<Rightarrow> message list \<Rightarrow> string \<Rightarrow> prompt_value" where
  "sql_prompt q hist t =
     map (fill [''question'' \<mapsto> Str q, ''chat_history'' \<mapsto> Messages hist, ''schema'' \<mapsto> Str t]) template"

text \<open>
  The prompt of the narration call, for a question, a history, the generated SQL, a schema
  and the result of running the SQL.
\<close>

definition response_prompt ::
  "string \<Rightarrow> message list \<Rightarrow> string \<Rightarrow> string \<Rightarrow> string \<Rightarrow> prompt_value" where
  "response_prompt q hist sql t resp =
     map (fill [''question'' \<mapsto> Str q, ''chat_history'' \<mapsto> Messages hist, ''query'' \<mapsto> Str sql,
                ''response'' \<mapsto> Str resp, ''schema'' \<mapsto> Str t]) response_template"

subsection \<open>Reading the log\<close>

text \<open>The events logged between a state and a later one.\<close>

definition new_events :: "('h, 'w) state \<Rightarrow> ('h, 'w) state \<Rightarrow> 'h event list" where
  "new_events s s' = drop (length (log s)) (log s')"

definition is_llm_invoke :: "'h event \<Rightarrow> bool" where
  "is_llm_invoke ev = (case ev of Llm_invoke _ _ \<Rightarrow> True | _ \<Rightarrow> False)"

definition is_raised :: "'h event \<Rightarrow> bool" where
  "is_raised ev = (case ev of Raised _ \<Rightarrow> True | _ \<Rightarrow> False)"

text \<open>The number of schema fetches on a handle, of model calls, and whether a library call raised.\<close>

definition fetches :: "'h \<Rightarrow> 'h event list \<Rightarrow> nat" where
  "fetches h evs = count_list evs (Get_table_info h)"

definition model_calls :: "'h event list \<Rightarrow> nat" where
  "model_calls evs = length (filter is_llm_invoke evs)"

definition raised :: "'h event list \<Rightarrow> bool" where
  "raised evs = list_ex is_raised evs"

subsection \<open>Turns\<close>

text \<open>An execution of the script in which the user has submitted a chat message.\<close>

definition submitted :: "ui \<Rightarrow> bool" where
  "submitted u = (case chat u of None \<Rightarrow> False | Some q \<Rightarrow> q \<noteq> [])"

text \<open>
  A completed turn with a handle present: the user has submitted a message, the execution of
  the script has returned, and the session held a handle.
\<close>

definition completed :: "('h, 'w) env \<Rightarrow> ui \<Rightarrow> ('h, 'w) state \<Rightarrow> bool" where
  "completed E u s =
     (submitted u \<and> fst (script E u s) = Inr () \<and> db (snd (script E u s)) \<noteq> Some None)"

text \<open>
  Over the executions of a session: the number of completed turns, and the number of
  submitted messages that were not completed turns (submitted without a handle, for one).
\<close>

fun completed_turns :: "('h, 'w) env \<Rightarrow> ui list \<Rightarrow> ('h, 'w) state \<Rightarrow> nat" where
  "completed_turns E [] s = 0"
| "completed_turns E (u # us) s =
     (if completed E u s then 1 else 0) + completed_turns E us (snd (script E u s))"

fun unanswered :: "('h, 'w) env \<Rightarrow> ui list \<Rightarrow> ('h, 'w) state \<Rightarrow> nat" where
  "unanswered E [] s = 0"
| "unanswered E (u # us) s =
     (if submitted u \<and> \<not> completed E u s then 1 else 0) + unanswered E us (snd (script E u s))"

text \<open>A sequence of turns: a user message followed by an assistant message, each time.\<close>

fun turns_shape :: "message list \<Rightarrow> bool" where
  "turns_shape [] = True"
| "turns_shape (HumanMessage q # AIMessage r # ms) = turns_shape ms"
| "turns_shape ms = False"

text \<open>The session's history, with the greeting in the place of a history not yet set.\<close>

definition history :: "('h, 'w) state \<Rightarrow> message list" where
  "history s = (case chat_history s of None \<Rightarrow> [AIMessage greeting] | Some hist \<Rightarrow> hist)"

text \<open>The connection string the sidebar's fields give.\<close>

definition form_uri :: "ui \<Rightarrow> string" where
  "form_uri u =
     db_uri (shown u ''User'' ''root'') (shown u ''Password'' ''admin'')
       (shown u ''Host'' ''localhost'') (shown u ''Port'' ''3306'') (shown u ''Database'' ''chinook'')"

subsection \<open>Example environments\<close>

text \<open>
  A database with one table of three rows behind a handle \<open>()\<close>; the world counts the
  model calls. In \<open>demo_env\<close> the model answers the first call with SQL and the later
  ones with a sentence; in \<open>quota_env\<close> every model call is rejected; in
  \<open>silent_env\<close> the model answers the narration call with the empty text.
\<close>

definition demo_env :: "(unit, nat) env" where
  "demo_env =
     \<lparr>getenv = (\<lambda>_. Some ''key''),
      from_uri = (\<lambda>u w. (Inr (), w)),
      get_table_info = (\<lambda>h w. (Inr ''CREATE TABLE t (id INT)'', w)),
      db_run = (\<lambda>h c w. (Inr ''[(3,)]'', w)),
      new_llm = (\<lambda>m k w. (None, w)),
      llm_invoke = (\<lambda>llm p w.
         (Inr (if w = 0 then ''SELECT COUNT(*) FROM t'' else ''There are 3 rows.''), Suc w))\<rparr>"

definition quota_env :: "(unit, nat) env" where
  "quota_env = demo_env\<lparr>llm_invoke := (\<lambda>llm p w. (Inl (LibraryError ''429 quota exceeded''), w))\<rparr>"


definition demo_assistant :: SQLAssistant where
  "demo_assistant = \<lparr>gemini_api_key = Some ''key''\<rparr>"




definition demo_history :: "message list" where
  "demo_history = [AIMessage greeting, HumanMessage ''How many rows?'']"

definition demo_state :: "(unit, nat) state" where
  "demo_state = fresh 0"

text \<open>In \<open>refusing_env\<close> the database refuses every connection.\<close>

definition refusing_env :: "(unit, nat) env" where
  "refusing_env = demo_env\<lparr>from_uri := (\<lambda>u w. (Inl (LibraryError ''Access denied''), w))\<rparr>"

text \<open>A session after its first execution, without a handle and with one.\<close>

definition demo_started :: "(unit, nat) state" where
  "demo_started = \<lparr>chat_history = Some [AIMessage greeting], db = Some None, widgets = Map.empty,
                    connector_db = None, ext = 0, log = []\<rparr>"

definition demo_connected :: "(unit, nat) state" where
  "demo_connected = demo_started\<lparr>db := Some (Some ())\<rparr>"

text \<open>What the browser sends: a press on Connect, a question, an empty line.\<close>

definition ui_connect :: ui where
  "ui_connect = \<lparr>typed = Map.empty, connect_clicked = True, chat = None\<rparr>"

definition ui_question :: ui where
  "ui_question = \<lparr>typed = Map.empty, connect_clicked = False, chat = Some ''How many rows?''\<rparr>"

definition ui_empty :: ui where
  "ui_empty = \<lparr>typed = Map.empty, connect_clicked = False, chat = Some []\<rparr>"

definition demo_app :: ChatApp where
  "demo_app = \<lparr>app_gemini_api_key = Some ''key'', sql_assistant = demo_assistant\<rparr>"

section \<open>Properties\<close>

lemmas io_defs = io_return_def io_raise_def io_bind_def io_seq_def io_try_def emit_def external_def

subsection \<open>The connector\<close>

text \<open>
  Claim C6. For all five strings, \<^verbatim>\<open>connect\<close> makes exactly one library call:
  \<^verbatim>\<open>SQLDatabase.from_uri\<close> on the string
  \<^verbatim>\<open>mysql+mysqlconnector://<user>:<password>@<host>:<port>/<database>\<close>, in which the five
  fields stand as they were given (nothing is checked, nothing is escaped). What the call
  returns is the handle that \<^verbatim>\<open>connect\<close> stores and returns; what it raises is raised
  by \<^verbatim>\<open>connect\<close>.
\<close>

theorem connect_opens_uri:
  "connect E user password host port database s =
     (case from_uri E (''mysql+mysqlconnector://'' @ user @ '':'' @ password @ ''@'' @ host
                         @ '':'' @ port @ ''/'' @ database) (ext s) of
        (Inl e, w) \<Rightarrow>
          (Inl e, s\<lparr>ext := w,
                     log := log s @ [From_uri (''mysql+mysqlconnector://'' @ user @ '':'' @ password
                                       @ ''@'' @ host @ '':'' @ port @ ''/'' @ database), Raised e]\<rparr>)
      | (Inr h, w) \<Rightarrow>
          (Inr h, s\<lparr>ext := w,
                     log := log s @ [From_uri (''mysql+mysqlconnector://'' @ user @ '':'' @ password
                                       @ ''@'' @ host @ '':'' @ port @ ''/'' @ database)],
                     connector_db := Some h\<rparr>))"
  by (simp add: connect_def db_uri_def io_defs split: prod.split sum.split)

subsection \<open>The chains in closed form\<close>

text \<open>
  Each lemma unfolds one layer of the chains into the library calls it makes, in their
  order, with the log each outcome leaves.
\<close>

lemma format_prompt_bound:
  "list_all (bound d) segs \<Longrightarrow> format_prompt segs d = Inr (map (fill d) segs)"
  by (induction segs d rule: format_prompt.induct) auto

lemma format_template:
  "d ''schema'' \<noteq> None \<Longrightarrow> d ''chat_history'' \<noteq> None \<Longrightarrow>
   format_prompt template d = Inr (map (fill d) template)"
  by (rule format_prompt_bound) (simp add: template_def)

lemma format_response_template:
  "d ''schema'' \<noteq> None \<Longrightarrow> d ''chat_history'' \<noteq> None \<Longrightarrow> d ''query'' \<noteq> None \<Longrightarrow>
   d ''question'' \<noteq> None \<Longrightarrow> d ''response'' \<noteq> None \<Longrightarrow>
   format_prompt response_template d = Inr (map (fill d) response_template)"
  by (rule format_prompt_bound) (simp add: response_template_def)

lemma new_llm_eq:
  "new_ChatGoogleGenerativeAI E m k s =
     (case new_llm E m k (ext s) of
        (Some e, w) \<Rightarrow> (Inl e, s\<lparr>ext := w, log := log s @ [New_llm m k, Raised e]\<rparr>)
      | (None, w) \<Rightarrow> (Inr \<lparr>model = m, google_api_key = k\<rparr>, s\<lparr>ext := w, log := log s @ [New_llm m k]\<rparr>))"
  by (simp add: new_ChatGoogleGenerativeAI_def external_def split: prod.split option.split)

lemma table_info_eq:
  "table_info E h s =
     (case get_table_info E h (ext s) of
        (Inl e, w) \<Rightarrow> (Inl e, s\<lparr>ext := w, log := log s @ [Get_table_info h, Raised e]\<rparr>)
      | (Inr t, w) \<Rightarrow> (Inr (Str t), s\<lparr>ext := w, log := log s @ [Get_table_info h]\<rparr>))"
  by (simp add: table_info_def io_defs split: prod.split sum.split)

lemma run_command_eq:
  "run_command E h c s =
     (case db_run E h c (ext s) of
        (Inl e, w) \<Rightarrow> (Inl e, s\<lparr>ext := w, log := log s @ [Db_run h c, Raised e]\<rparr>)
      | (Inr t, w) \<Rightarrow> (Inr (Str t), s\<lparr>ext := w, log := log s @ [Db_run h c]\<rparr>))"
  by (simp add: run_command_def io_defs split: prod.split sum.split)

lemma llm_call_eq:
  "llm_call E llm p s =
     (case llm_invoke E llm p (ext s) of
        (Inl e, w) \<Rightarrow> (Inl e, s\<lparr>ext := w, log := log s @ [Llm_invoke llm p, Raised e]\<rparr>)
      | (Inr t, w) \<Rightarrow> (Inr t, s\<lparr>ext := w, log := log s @ [Llm_invoke llm p]\<rparr>))"
  by (simp add: llm_call_def io_defs split: prod.split sum.split)

lemma sql_chain_eq:
  assumes "d ''chat_history'' \<noteq> None"
  shows "sql_chain E h llm d s =
    (case get_table_info E h (ext s) of
       (Inl e, w1) \<Rightarrow> (Inl e, s\<lparr>ext := w1, log := log s @ [Get_table_info h, Raised e]\<rparr>)
     | (Inr t, w1) \<Rightarrow>
         (case llm_invoke E llm (map (fill (d(''schema'' \<mapsto> Str t))) template) w1 of
            (Inl e, w2) \<Rightarrow>
              (Inl e, s\<lparr>ext := w2,
                         log := log s @ [Get_table_info h,
                                         Llm_invoke llm (map (fill (d(''schema'' \<mapsto> Str t))) template),
                                         Raised e]\<rparr>)
          | (Inr x, w2) \<Rightarrow>
              (Inr x, s\<lparr>ext := w2,
                         log := log s @ [Get_table_info h,
                                         Llm_invoke llm (map (fill (d(''schema'' \<mapsto> Str t))) template)]\<rparr>)))"
  using assms
  by (simp add: sql_chain_def pipe_def assign_def table_info_eq llm_call_eq prompt_invoke_def
        StrOutputParser_def io_return_def io_raise_def io_bind_def format_template
        split: prod.split sum.split)


lemma assign_query_eq:
  assumes "d ''chat_history'' \<noteq> None"
  shows "assign [(''query'', \<lambda>d. io_bind (sql_chain E h llm d) (\<lambda>q. io_return (Str q)))] d s =
    (case sql_chain E h llm d s of
       (Inl e, s1) \<Rightarrow> (Inl e, s1)
     | (Inr sql, s1) \<Rightarrow> (Inr (d(''query'' \<mapsto> Str sql)), s1))"
  by (simp add: assign_def io_return_def io_bind_def split: prod.split sum.split)

lemma assign_schema_response_eq:
  assumes "d ''query'' = Some c"
  shows "assign [(''schema'', \<lambda>_. table_info E h),
                 (''response'', \<lambda>vars. io_bind (getitem vars ''query'') (run_command E h))] d s =
    (case get_table_info E h (ext s) of
       (Inl e, w3) \<Rightarrow>
         (case db_run E h c w3 of
            (Inl e', w4) \<Rightarrow>
              (Inl e, s\<lparr>ext := w4, log := log s @ [Get_table_info h, Raised e, Db_run h c, Raised e']\<rparr>)
          | (Inr resp, w4) \<Rightarrow>
              (Inl e, s\<lparr>ext := w4, log := log s @ [Get_table_info h, Raised e, Db_run h c]\<rparr>))
     | (Inr t2, w3) \<Rightarrow>
         (case db_run E h c w3 of
            (Inl e', w4) \<Rightarrow>
              (Inl e', s\<lparr>ext := w4, log := log s @ [Get_table_info h, Db_run h c, Raised e']\<rparr>)
          | (Inr resp, w4) \<Rightarrow>
              (Inr (d(''response'' \<mapsto> Str resp, ''schema'' \<mapsto> Str t2)),
               s\<lparr>ext := w4, log := log s @ [Get_table_info h, Db_run h c]\<rparr>)))"
  using assms
  by (auto simp: assign_def table_info_eq run_command_eq getitem_def io_return_def io_bind_def
        split: prod.split sum.split)

lemma response_chain_eq:
  "response_chain E h (sql_chain E h llm1) llm2
      [''question'' \<mapsto> Str q, ''chat_history'' \<mapsto> Messages hist] s =
    (case get_table_info E h (ext s) of
       (Inl e, w1) \<Rightarrow> (Inl e, s\<lparr>ext := w1, log := log s @ [Get_table_info h, Raised e]\<rparr>)
     | (Inr t, w1) \<Rightarrow>
     (case llm_invoke E llm1 (sql_prompt q hist t) w1 of
        (Inl e, w2) \<Rightarrow>
          (Inl e, s\<lparr>ext := w2,
                     log := log s @ [Get_table_info h, Llm_invoke llm1 (sql_prompt q hist t), Raised e]\<rparr>)
      | (Inr sql, w2) \<Rightarrow>
     (case get_table_info E h w2 of
        (Inl e, w3) \<Rightarrow>
          (case db_run E h (Str sql) w3 of
             (Inl e', w4) \<Rightarrow>
               (Inl e, s\<lparr>ext := w4,
                          log := log s @ [Get_table_info h, Llm_invoke llm1 (sql_prompt q hist t),
                                          Get_table_info h, Raised e, Db_run h (Str sql), Raised e']\<rparr>)
           | (Inr resp, w4) \<Rightarrow>
               (Inl e, s\<lparr>ext := w4,
                          log := log s @ [Get_table_info h, Llm_invoke llm1 (sql_prompt q hist t),
                                          Get_table_info h, Raised e, Db_run h (Str sql)]\<rparr>))
      | (Inr t2, w3) \<Rightarrow>
          (case db_run E h (Str sql) w3 of
             (Inl e', w4) \<Rightarrow>
               (Inl e', s\<lparr>ext := w4,
                           log := log s @ [Get_table_info h, Llm_invoke llm1 (sql_prompt q hist t),
                                           Get_table_info h, Db_run h (Str sql), Raised e']\<rparr>)
           | (Inr resp, w4) \<Rightarrow>
               (case llm_invoke E llm2 (response_prompt q hist sql t2 resp) w4 of
                  (Inl e, w5) \<Rightarrow>
                    (Inl e, s\<lparr>ext := w5,
                               log := log s @ [Get_table_info h, Llm_invoke llm1 (sql_prompt q hist t),
                                               Get_table_info h, Db_run h (Str sql),
                                               Llm_invoke llm2 (response_prompt q hist sql t2 resp),
                                               Raised e]\<rparr>)
                | (Inr x, w5) \<Rightarrow>
                    (Inr x, s\<lparr>ext := w5,
                               log := log s @ [Get_table_info h, Llm_invoke llm1 (sql_prompt q hist t),
                                               Get_table_info h, Db_run h (Str sql),
                                               Llm_invoke llm2 (response_prompt q hist sql t2 resp)]\<rparr>))))))"
  by (simp add: response_chain_def pipe_def assign_query_eq sql_chain_eq assign_schema_response_eq
        llm_call_eq prompt_invoke_def
        StrOutputParser_def io_return_def io_raise_def io_bind_def format_response_template
        sql_prompt_def response_prompt_def
        split: prod.split sum.split)


lemma get_sql_chain_eq:
  "get_sql_chain E self h s =
    (case new_llm E ''gemini-1.5-pro'' (gemini_api_key self) (ext s) of
       (Some e, w1) \<Rightarrow>
         (Inl e, s\<lparr>ext := w1,
                    log := log s @ [New_llm ''gemini-1.5-pro'' (gemini_api_key self), Raised e]\<rparr>)
     | (None, w1) \<Rightarrow>
         (Inr (sql_chain E h \<lparr>model = ''gemini-1.5-pro'', google_api_key = gemini_api_key self\<rparr>),
          s\<lparr>ext := w1, log := log s @ [New_llm ''gemini-1.5-pro'' (gemini_api_key self)]\<rparr>))"
  by (simp add: get_sql_chain_def new_llm_eq io_return_def io_bind_def
        split: prod.split option.split)

lemma generate_response_eq:
  "generate_response E self q h hist s =
    (case new_llm E ''gemini-1.5-pro'' (gemini_api_key self) (ext s) of
       (Some e, w1) \<Rightarrow>
         (Inl e, s\<lparr>ext := w1,
                    log := log s @ [New_llm ''gemini-1.5-pro'' (gemini_api_key self), Raised e]\<rparr>)
     | (None, w1) \<Rightarrow>
    (case new_llm E ''gemini-1.5-pro'' (gemini_api_key self) w1 of
       (Some e, w2) \<Rightarrow>
         (Inl e, s\<lparr>ext := w2,
                    log := log s @ [New_llm ''gemini-1.5-pro'' (gemini_api_key self),
                                    New_llm ''gemini-1.5-pro'' (gemini_api_key self), Raised e]\<rparr>)
     | (None, w2) \<Rightarrow>
    (case response_chain E h
            (sql_chain E h \<lparr>model = ''gemini-1.5-pro'', google_api_key = gemini_api_key self\<rparr>)
            \<lparr>model = ''gemini-1.5-pro'', google_api_key = gemini_api_key self\<rparr>
            [''question'' \<mapsto> Str q, ''chat_history'' \<mapsto> Messages hist]
            (s\<lparr>ext := w2,
               log := log s @ [New_llm ''gemini-1.5-pro'' (gemini_api_key self),
                               New_llm ''gemini-1.5-pro'' (gemini_api_key self)]\<rparr>) of
       (Inl e, s3) \<Rightarrow> (Inr error_message, s3\<lparr>log := log s3 @ [St_error error_message]\<rparr>)
     | (Inr x, s3) \<Rightarrow> (Inr x, s3))))"
  by (auto simp: generate_response_def get_sql_chain_eq new_llm_eq io_return_def io_bind_def
        io_seq_def io_try_def emit_def split: prod.split sum.split option.split)

subsection \<open>What a run of the chain leaves\<close>

lemma sql_prompt_history: "Val (Messages hist) \<in> set (sql_prompt q hist t)"
  by (simp add: sql_prompt_def template_def)

lemma response_prompt_history: "Val (Messages hist) \<in> set (response_prompt q hist sql t resp)"
  by (simp add: response_prompt_def response_template_def)

lemma response_prompt_question: "Val (Str q) \<in> set (response_prompt q hist sql t resp)"
  by (simp add: response_prompt_def response_template_def)

lemmas log_defs = new_events_def is_llm_invoke_def is_raised_def fetches_def model_calls_def raised_def

lemma response_chain_props:
  "case response_chain E h (sql_chain E h la) lb
              [''question'' \<mapsto> Str q, ''chat_history'' \<mapsto> Messages hist] s of
     (r, s') \<Rightarrow>
       s' = s\<lparr>ext := ext s', log := log s @ new_events s s'\<rparr>
       \<and> (isl r \<longleftrightarrow> raised (new_events s s'))
       \<and> 1 \<le> fetches h (new_events s s')
       \<and> fetches h (new_events s s') \<le> 2
       \<and> model_calls (new_events s s') \<le> fetches h (new_events s s')
       \<and> (\<not> raised (new_events s s') \<longrightarrow>
             fetches h (new_events s s') = 2 \<and> model_calls (new_events s s') = 2)
       \<and> fetches h (new_events s s') =
            (if isl (fst (sql_chain E h la
                            [''question'' \<mapsto> Str q, ''chat_history'' \<mapsto> Messages hist] s))
             then 1 else 2)
       \<and> (\<forall>x. r = Inr x \<longrightarrow>
             (\<exists>p w w'. llm_invoke E lb p w = (Inr x, w')
                       \<and> last (new_events s s') = Llm_invoke lb p))
       \<and> (\<forall>llm p. Llm_invoke llm p \<in> set (new_events s s') \<longrightarrow> Val (Messages hist) \<in> set p)"
  apply (simp add: response_chain_eq sql_chain_eq log_defs sql_prompt_history response_prompt_history
           split: prod.split sum.split)
  apply (auto simp: sql_prompt_def sql_prompt_history response_prompt_history)
  done


lemma new_events_upd [simp]:
  "new_events s (s\<lparr>ext := w, log := log s @ evs\<rparr>) = evs"
  by (simp add: new_events_def)

lemma response_chain_outcome:
  "\<exists>r w evs.
       response_chain E h (sql_chain E h la) lb
         [''question'' \<mapsto> Str q, ''chat_history'' \<mapsto> Messages hist] s
         = (r, s\<lparr>ext := w, log := log s @ evs\<rparr>)
       \<and> (isl r \<longleftrightarrow> raised evs)
       \<and> 1 \<le> fetches h evs \<and> fetches h evs \<le> 2 \<and> model_calls evs \<le> fetches h evs
       \<and> (\<not> raised evs \<longrightarrow> fetches h evs = 2 \<and> model_calls evs = 2)
       \<and> fetches h evs =
            (if isl (fst (sql_chain E h la
                            [''question'' \<mapsto> Str q, ''chat_history'' \<mapsto> Messages hist] s))
             then 1 else 2)
       \<and> (\<forall>x. r = Inr x \<longrightarrow>
             (\<exists>p w w'. llm_invoke E lb p w = (Inr x, w') \<and> last evs = Llm_invoke lb p))
       \<and> (\<forall>llm p. Llm_invoke llm p \<in> set evs \<longrightarrow> Val (Messages hist) \<in> set p)"
proof -
  obtain r s' where rs:
    "response_chain E h (sql_chain E h la) lb
       [''question'' \<mapsto> Str q, ''chat_history'' \<mapsto> Messages hist] s = (r, s')"
    by fastforce
  note p = response_chain_props[where E=E and h=h and la=la and lb=lb and q=q and hist=hist
      and s=s, unfolded rs prod.case]
  have eq: "response_chain E h (sql_chain E h la) lb
       [''question'' \<mapsto> Str q, ''chat_history'' \<mapsto> Messages hist] s
       = (r, s\<lparr>ext := ext s', log := log s @ new_events s s'\<rparr>)"
    using rs conjunct1[OF p] by metis
  show ?thesis
    by (rule exI[of _ r], rule exI[of _ "ext s'"], rule exI[of _ "new_events s s'"],
        rule conjI[OF eq conjunct2[OF p]])
qed


lemma raised_simps [simp]:
  "raised [] = False"
  "raised (ev # evs) = (is_raised ev \<or> raised evs)"
  "raised (evs @ evs') = (raised evs \<or> raised evs')"
  by (auto simp: raised_def)

lemma fetches_simps [simp]:
  "fetches h [] = 0"
  "fetches h (ev # evs) = (if ev = Get_table_info h then Suc (fetches h evs) else fetches h evs)"
  "fetches h (evs @ evs') = fetches h evs + fetches h evs'"
  by (auto simp: fetches_def)

lemma model_calls_simps [simp]:
  "model_calls [] = 0"
  "model_calls (ev # evs) = (if is_llm_invoke ev then Suc (model_calls evs) else model_calls evs)"
  "model_calls (evs @ evs') = model_calls evs + model_calls evs'"
  by (auto simp: model_calls_def)

lemma is_raised_simps [simp]:
  "is_raised (Raised e)" "\<not> is_raised (New_llm m k)" "\<not> is_raised (St_error t)"
  "\<not> is_raised (Get_table_info h)" "\<not> is_raised (Llm_invoke l p)" "\<not> is_raised (Db_run h c)"
  by (simp_all add: is_raised_def)

lemma is_llm_invoke_simps [simp]:
  "is_llm_invoke (Llm_invoke l p)" "\<not> is_llm_invoke (New_llm m k)" "\<not> is_llm_invoke (St_error t)"
  "\<not> is_llm_invoke (Get_table_info h)" "\<not> is_llm_invoke (Raised e)" "\<not> is_llm_invoke (Db_run h c)"
  by (simp_all add: is_llm_invoke_def)


lemma generate_response_frame:
  "\<exists>r w evs.
       generate_response E self q h hist s = (r, s\<lparr>ext := w, log := log s @ evs\<rparr>)
       \<and> evs \<noteq> [] \<and> hd evs = New_llm ''gemini-1.5-pro'' (gemini_api_key self)
       \<and> (\<forall>llm p. Llm_invoke llm p \<in> set evs \<longrightarrow> Val (Messages hist) \<in> set p)
       \<and> (\<forall>x. r = Inr x \<longrightarrow> x = error_message \<or>
             (\<exists>p w w'. llm_invoke E \<lparr>model = ''gemini-1.5-pro'', google_api_key = gemini_api_key self\<rparr> p w
                          = (Inr x, w')))"
proof -
  let ?N = "New_llm ''gemini-1.5-pro'' (gemini_api_key self)"
  let ?llm = "\<lparr>model = ''gemini-1.5-pro'', google_api_key = gemini_api_key self\<rparr>"
  obtain c1 w1 where 1: "new_llm E ''gemini-1.5-pro'' (gemini_api_key self) (ext s) = (c1, w1)"
    by fastforce
  obtain c2 w2 where 2: "new_llm E ''gemini-1.5-pro'' (gemini_api_key self) w1 = (c2, w2)"
    by fastforce
  let ?s2 = "s\<lparr>ext := w2, log := log s @ [?N, ?N]\<rparr>"
  obtain r w evs where
    rc: "response_chain E h (sql_chain E h ?llm) ?llm
           [''question'' \<mapsto> Str q, ''chat_history'' \<mapsto> Messages hist] ?s2
         = (r, ?s2\<lparr>ext := w, log := log ?s2 @ evs\<rparr>)"
    and out: "\<forall>x. r = Inr x \<longrightarrow>
             (\<exists>p w w'. llm_invoke E ?llm p w = (Inr x, w') \<and> last evs = Llm_invoke ?llm p)"
    and hst: "\<forall>llm p. Llm_invoke llm p \<in> set evs \<longrightarrow> Val (Messages hist) \<in> set p"
    using response_chain_outcome[where E=E and h=h and la="?llm" and lb="?llm" and q=q
        and hist=hist and s="?s2"] by blast
  show ?thesis
  proof (cases c1)
    case (Some e)
    then have "generate_response E self q h hist s
        = (Inl e, s\<lparr>ext := w1, log := log s @ [?N, Raised e]\<rparr>)"
      using 1 by (simp add: generate_response_eq)
    then show ?thesis
      by (intro exI[of _ "Inl e"] exI[of _ w1] exI[of _ "[?N, Raised e]"]) simp
  next
    case None
    note c1 = None
    show ?thesis
    proof (cases c2)
      case (Some e)
      then have "generate_response E self q h hist s
          = (Inl e, s\<lparr>ext := w2, log := log s @ [?N, ?N, Raised e]\<rparr>)"
        using 1 2 c1 by (simp add: generate_response_eq)
      then show ?thesis
        by (intro exI[of _ "Inl e"] exI[of _ w2] exI[of _ "[?N, ?N, Raised e]"]) simp
    next
      case None
      show ?thesis
      proof (cases r)
        case (Inl e)
        then have "generate_response E self q h hist s
            = (Inr error_message,
               s\<lparr>ext := w, log := log s @ (?N # ?N # evs @ [St_error error_message])\<rparr>)"
          using 1 2 c1 None rc by (simp add: generate_response_eq)
        then show ?thesis using hst
          by (intro exI[of _ "Inr error_message"] exI[of _ w]
                exI[of _ "?N # ?N # evs @ [St_error error_message]"]) auto
      next
        case (Inr x)
        then have "generate_response E self q h hist s
            = (Inr x, s\<lparr>ext := w, log := log s @ (?N # ?N # evs)\<rparr>)"
          using 1 2 c1 None rc by (simp add: generate_response_eq)
        moreover obtain p wa wb where "llm_invoke E ?llm p wa = (Inr x, wb)"
          using out Inr by blast
        ultimately show ?thesis using hst
          by (intro exI[of _ "Inr x"] exI[of _ w] exI[of _ "?N # ?N # evs"]) auto
      qed
    qed
  qed
qed

subsection \<open>\<^verbatim>\<open>generate_response\<close>\<close>







text \<open>
  Claim C7, as stated, fails: a turn whose SQL-generation model call raises has fetched the
  schema once, not twice.
\<close>

theorem one_schema_fetch_counterexample:
  "fetches () (new_events demo_state
       (snd (generate_response quota_env demo_assistant ''How many rows?'' () demo_history demo_state)))
     = 1"
  by (simp add: generate_response_eq response_chain_eq quota_env_def demo_env_def demo_state_def
        fresh_def demo_assistant_def new_events_def)

text \<open>
  Claim C7, amended. Nothing is cached: once the chains are built, a run of
  \<^verbatim>\<open>generate_response\<close> fetches the schema from the handle twice when the
  SQL-generation chain (first fetch, first model call) returns, and once when that chain raises;
  and it never makes more model calls than schema fetches.
\<close>

theorem schema_fetched_per_stage:
  assumes "get_sql_chain E self h s = (Inr chain, s1)"
    and "new_ChatGoogleGenerativeAI E ''gemini-1.5-pro'' (gemini_api_key self) s1 = (Inr llm, s2)"
  shows "fetches h (new_events s (snd (generate_response E self q h hist s)))
           = (if isl (fst (chain [''question'' \<mapsto> Str q, ''chat_history'' \<mapsto> Messages hist] s2))
              then 1 else 2)
         \<and> model_calls (new_events s (snd (generate_response E self q h hist s)))
             \<le> fetches h (new_events s (snd (generate_response E self q h hist s)))"
proof -
  let ?N = "New_llm ''gemini-1.5-pro'' (gemini_api_key self)"
  let ?llm = "\<lparr>model = ''gemini-1.5-pro'', google_api_key = gemini_api_key self\<rparr>"
  let ?d = "[''question'' \<mapsto> Str q, ''chat_history'' \<mapsto> Messages hist]"
  obtain c1 w1 where 1: "new_llm E ''gemini-1.5-pro'' (gemini_api_key self) (ext s) = (c1, w1)"
    by fastforce
  from assms(1) 1 have c1: "c1 = None" and chain: "chain = sql_chain E h ?llm"
    and s1: "s1 = s\<lparr>ext := w1, log := log s @ [?N]\<rparr>"
    by (auto simp: get_sql_chain_eq split: option.splits)
  obtain c2 w2 where 2: "new_llm E ''gemini-1.5-pro'' (gemini_api_key self) w1 = (c2, w2)"
    by fastforce
  from assms(2) 2 s1 have c2: "c2 = None" and s2: "s2 = s\<lparr>ext := w2, log := log s @ [?N, ?N]\<rparr>"
    by (auto simp: new_llm_eq split: option.splits)
  obtain r w evs where
    rc: "response_chain E h (sql_chain E h ?llm) ?llm ?d s2
         = (r, s2\<lparr>ext := w, log := log s2 @ evs\<rparr>)"
    and f: "fetches h evs = (if isl (fst (sql_chain E h ?llm ?d s2)) then 1 else 2)"
           "model_calls evs \<le> fetches h evs"
    using response_chain_outcome[where E=E and h=h and la="?llm" and lb="?llm" and q=q
        and hist=hist and s=s2] by blast
  have "new_events s (snd (generate_response E self q h hist s)) = ?N # ?N # evs
      \<or> new_events s (snd (generate_response E self q h hist s))
          = ?N # ?N # evs @ [St_error error_message]"
    using 1 2 c1 c2 rc unfolding s2
    by (cases r) (simp_all add: generate_response_eq new_events_def)
  then show ?thesis using f chain by auto
qed

text \<open>The theorem at a turn on which every library call returns: two fetches.\<close>

theorem schema_fetched_per_stage_witness:
  "get_sql_chain demo_env demo_assistant () demo_state
     = (Inr (sql_chain demo_env () \<lparr>model = ''gemini-1.5-pro'', google_api_key = Some ''key''\<rparr>),
        demo_state\<lparr>log := [New_llm ''gemini-1.5-pro'' (Some ''key'')]\<rparr>)
   \<and> new_ChatGoogleGenerativeAI demo_env ''gemini-1.5-pro'' (gemini_api_key demo_assistant)
        (demo_state\<lparr>log := [New_llm ''gemini-1.5-pro'' (Some ''key'')]\<rparr>)
     = (Inr \<lparr>model = ''gemini-1.5-pro'', google_api_key = Some ''key''\<rparr>,
        demo_state\<lparr>log := [New_llm ''gemini-1.5-pro'' (Some ''key''),
                              New_llm ''gemini-1.5-pro'' (Some ''key'')]\<rparr>)
   \<and> fetches () (new_events demo_state
         (snd (generate_response demo_env demo_assistant ''How many rows?'' () demo_history demo_state)))
       = 2"
proof -
  let ?L = "\<lparr>model = ''gemini-1.5-pro'', google_api_key = Some ''key''\<rparr>"
  let ?N = "New_llm ''gemini-1.5-pro'' (Some ''key'')"
  have 1: "get_sql_chain demo_env demo_assistant () demo_state
     = (Inr (sql_chain demo_env () ?L), demo_state\<lparr>log := [?N]\<rparr>)"
    by (simp add: get_sql_chain_eq demo_env_def demo_assistant_def demo_state_def fresh_def)
  have 2: "new_ChatGoogleGenerativeAI demo_env ''gemini-1.5-pro'' (gemini_api_key demo_assistant)
        (demo_state\<lparr>log := [?N]\<rparr>)
     = (Inr ?L, demo_state\<lparr>log := [?N, ?N]\<rparr>)"
    by (simp add: new_llm_eq demo_env_def demo_assistant_def demo_state_def fresh_def)
  have 3: "\<not> isl (fst (sql_chain demo_env () ?L
              [''question'' \<mapsto> Str ''How many rows?'', ''chat_history'' \<mapsto> Messages demo_history]
              (demo_state\<lparr>log := [?N, ?N]\<rparr>)))"
    by (simp add: sql_chain_eq demo_env_def)
  from schema_fetched_per_stage[OF 1 2, of "''How many rows?''" demo_history] 1 2 3
  show ?thesis by simp
qed

subsection \<open>The app in closed form\<close>

lemma handle_user_query_idle:
  assumes "chat u = None \<or> chat u = Some []"
  shows "handle_user_query E self u s = (Inr (), s\<lparr>log := log s @ [St_chat_input ''Type a message...'']\<rparr>)"
  using assms by (auto simp: handle_user_query_def io_defs)

lemma handle_user_query_no_handle:
  assumes "chat u = Some q" "q \<noteq> []" "chat_history s = Some old" "db s = Some None"
  shows "handle_user_query E self u s =
    (Inr (), s\<lparr>chat_history := Some (old @ [HumanMessage q]),
               log := log s @ [St_chat_input ''Type a message...'', St_chat_message ''Human'',
                               St_markdown q, St_chat_message ''AI'',
                               St_error ''Database not connected. Please connect to the database first.'']\<rparr>)"
  using assms
  by (simp add: handle_user_query_def io_defs append_message_def get_chat_history_def get_db_def)

lemma handle_user_query_turn:
  assumes "chat u = Some q" "q \<noteq> []" "chat_history s = Some old" "db s = Some (Some h)"
  shows "handle_user_query E self u s =
    (case generate_response E (sql_assistant self) q h (old @ [HumanMessage q])
            (s\<lparr>chat_history := Some (old @ [HumanMessage q]),
               log := log s @ [St_chat_input ''Type a message...'', St_chat_message ''Human'',
                               St_markdown q, St_chat_message ''AI'']\<rparr>) of
       (Inl e, s') \<Rightarrow> (Inl e, s')
     | (Inr r, s') \<Rightarrow>
         (Inr (), s'\<lparr>chat_history := Some (old @ [HumanMessage q, AIMessage r]),
                     log := log s' @ [St_markdown r]\<rparr>))"
proof -
  let ?s1 = "s\<lparr>chat_history := Some (old @ [HumanMessage q]),
               log := log s @ [St_chat_input ''Type a message...'', St_chat_message ''Human'',
                               St_markdown q, St_chat_message ''AI'']\<rparr>"
  obtain r w evs where g:
    "generate_response E (sql_assistant self) q h (old @ [HumanMessage q]) ?s1
      = (r, ?s1\<lparr>ext := w, log := log ?s1 @ evs\<rparr>)"
    using generate_response_frame[of E "sql_assistant self" q h "old @ [HumanMessage q]" ?s1]
    by blast
  show ?thesis
    using assms g
    by (cases r)
       (simp_all add: handle_user_query_def io_defs append_message_def get_chat_history_def get_db_def)
qed


lemma handle_user_query_outcome:
  assumes "chat_history s = Some old" "db s = Some d"
  shows "\<exists>r w evs more.
      handle_user_query E self u s
        = (r, s\<lparr>chat_history := Some (old @ more), ext := w, log := log s @ evs\<rparr>)
      \<and> (\<forall>llm p. Llm_invoke llm p \<in> set evs \<longrightarrow> (\<exists>m. Val (Messages (old @ m)) \<in> set p))
      \<and> (\<not> submitted u \<longrightarrow> more = [] \<and> r = Inr ())
      \<and> (submitted u \<longrightarrow>
            (\<exists>q. chat u = Some q \<and>
               (if isl r \<or> d = None then more = [HumanMessage q]
                else \<exists>x. more = [HumanMessage q, AIMessage x])))"
proof (cases "submitted u")
  case False
  then have "chat u = None \<or> chat u = Some []"
    by (auto simp: submitted_def split: option.splits)
  from handle_user_query_idle[OF this, of E self s] False show ?thesis
    by (intro exI[of _ "Inr ()"] exI[of _ "ext s"] exI[of _ "[St_chat_input ''Type a message...'']"]
          exI[of _ "[]"]) (simp add: assms)
next
  case True
  then obtain q where q: "chat u = Some q" "q \<noteq> []"
    by (auto simp: submitted_def split: option.splits)
  show ?thesis
  proof (cases d)
    case None
    from handle_user_query_no_handle[OF q assms(1), of E self] assms(2) None True q show ?thesis
      by (intro exI[of _ "Inr ()"] exI[of _ "ext s"]
            exI[of _ "[St_chat_input ''Type a message...'', St_chat_message ''Human'',
                       St_markdown q, St_chat_message ''AI'',
                       St_error ''Database not connected. Please connect to the database first.'']"]
            exI[of _ "[HumanMessage q]"]) simp
  next
    case (Some h)
    let ?pre = "[St_chat_input ''Type a message...'', St_chat_message ''Human'',
                 St_markdown q, St_chat_message ''AI'']"
    let ?s1 = "s\<lparr>chat_history := Some (old @ [HumanMessage q]), log := log s @ ?pre\<rparr>"
    obtain r w evs where g:
      "generate_response E (sql_assistant self) q h (old @ [HumanMessage q]) ?s1
        = (r, ?s1\<lparr>ext := w, log := log ?s1 @ evs\<rparr>)"
      and hst: "\<forall>llm p. Llm_invoke llm p \<in> set evs \<longrightarrow> Val (Messages (old @ [HumanMessage q])) \<in> set p"
      using generate_response_frame[of E "sql_assistant self" q h "old @ [HumanMessage q]" ?s1]
      by blast
    have d: "db s = Some (Some h)" using assms(2) Some by simp
    note eq = handle_user_query_turn[OF q assms(1) d, of E self]
    show ?thesis
    proof (cases r)
      case (Inl e)
      with eq g have "handle_user_query E self u s
          = (Inl e, s\<lparr>chat_history := Some (old @ [HumanMessage q]), ext := w,
                       log := log s @ (?pre @ evs)\<rparr>)"
        by simp
      with hst True q show ?thesis
        by (intro exI[of _ "Inl e"] exI[of _ w] exI[of _ "?pre @ evs"] exI[of _ "[HumanMessage q]"])
           auto
    next
      case (Inr x)
      with eq g have "handle_user_query E self u s
          = (Inr (), s\<lparr>chat_history := Some (old @ [HumanMessage q, AIMessage x]), ext := w,
                       log := log s @ (?pre @ evs @ [St_markdown x])\<rparr>)"
        by simp
      with hst True q Some show ?thesis
        by (intro exI[of _ "Inr ()"] exI[of _ w] exI[of _ "?pre @ evs @ [St_markdown x]"]
              exI[of _ "[HumanMessage q, AIMessage x]"])
           auto
    qed
  qed
qed

lemma display_all_eq:
  "\<exists>evs. display_all ms s = (Inr (), s\<lparr>log := log s @ evs\<rparr>)
         \<and> (\<forall>ev \<in> set evs. \<not> is_llm_invoke ev)"
proof (induction ms arbitrary: s)
  case Nil
  show ?case by (intro exI[of _ "[]"]) (simp add: io_defs)
next
  case (Cons m ms)
  obtain a where a: "display_message m s = (Inr (), s\<lparr>log := log s @ a\<rparr>)"
      "\<forall>ev \<in> set a. \<not> is_llm_invoke ev"
  proof (cases m)
    case (AIMessage t)
    then have "display_message m s = (Inr (), s\<lparr>log := log s @ [St_chat_message ''AI'', St_markdown t]\<rparr>)"
      by (simp add: io_defs)
    then show ?thesis using that by (simp add: is_llm_invoke_def)
  next
    case (HumanMessage t)
    then have "display_message m s = (Inr (), s\<lparr>log := log s @ [St_chat_message ''Human'', St_write t]\<rparr>)"
      by (simp add: io_defs)
    then show ?thesis using that by (simp add: is_llm_invoke_def)
  qed
  from Cons.IH[of "s\<lparr>log := log s @ a\<rparr>"] obtain b where
    b: "display_all ms (s\<lparr>log := log s @ a\<rparr>) = (Inr (), s\<lparr>log := log s @ a @ b\<rparr>)"
       "\<forall>ev \<in> set b. \<not> is_llm_invoke ev"
    by auto
  show ?case using a b
    by (intro exI[of _ "a @ b"]) (auto simp: io_bind_def io_seq_def)
qed

lemma display_chat_history_eq:
  assumes "chat_history s = Some hist"
  shows "\<exists>evs. display_chat_history s = (Inr (), s\<lparr>log := log s @ evs\<rparr>)
         \<and> (\<forall>ev \<in> set evs. \<not> is_llm_invoke ev)"
  using assms display_all_eq[of hist s]
  by (simp add: display_chat_history_def get_chat_history_def io_bind_def)

lemma new_ChatApp_eq:
  "new_ChatApp E s =
     (Inr \<lparr>app_gemini_api_key = getenv E ''GEMINI_API_KEY'',
            sql_assistant = \<lparr>gemini_api_key = getenv E ''GEMINI_API_KEY''\<rparr>\<rparr>,
      s\<lparr>chat_history := Some (history s),
        db := Some (case db s of None \<Rightarrow> None | Some d \<Rightarrow> d),
        connector_db := None,
        log := log s @ [Load_dotenv]\<rparr>)"
  by (cases "chat_history s"; cases "db s")
     (simp_all add: new_ChatApp_def init_session_state_def history_def io_defs Let_def)


lemma connect_eq:
  "connect E user password host port database s =
     (case from_uri E (db_uri user password host port database) (ext s) of
        (Inl e, w) \<Rightarrow>
          (Inl e, s\<lparr>ext := w,
                     log := log s @ [From_uri (db_uri user password host port database), Raised e]\<rparr>)
      | (Inr h, w) \<Rightarrow>
          (Inr h, s\<lparr>ext := w,
                     log := log s @ [From_uri (db_uri user password host port database)],
                     connector_db := Some h\<rparr>))"
  by (simp add: connect_def io_defs split: prod.split sum.split)

lemma sidebar_eq:
  "sidebar E u s =
    (let s1 = s\<lparr>widgets := (widgets s)
                  (''Host'' \<mapsto> shown u ''Host'' ''localhost'', ''Port'' \<mapsto> shown u ''Port'' ''3306'',
                   ''User'' \<mapsto> shown u ''User'' ''root'', ''Password'' \<mapsto> shown u ''Password'' ''admin'',
                   ''Database'' \<mapsto> shown u ''Database'' ''chinook''),
                log := log s @ [Sidebar_subheader ''Settings'',
                                Sidebar_text_input ''Host'' ''localhost'' False,
                                Sidebar_text_input ''Port'' ''3306'' False,
                                Sidebar_text_input ''User'' ''root'' False,
                                Sidebar_text_input ''Password'' ''admin'' True,
                                Sidebar_text_input ''Database'' ''chinook'' False,
                                Sidebar_button ''Connect'']\<rparr>
     in if connect_clicked u then
          (case from_uri E (form_uri u) (ext s) of
             (Inl e, w) \<Rightarrow>
               (Inr (), s1\<lparr>ext := w,
                           log := log s1 @ [St_spinner ''Connecting to database...'',
                                            From_uri (form_uri u), Raised e,
                                            St_error (''Failed to connect: '' @ str_exn e)]\<rparr>)
           | (Inr h, w) \<Rightarrow>
               (Inr (), s1\<lparr>ext := w, connector_db := Some h, db := Some (Some h),
                           log := log s1 @ [St_spinner ''Connecting to database...'',
                                            From_uri (form_uri u),
                                            St_success ''Connected to the database!'']\<rparr>))
        else (Inr (), s1))"
  by (simp add: sidebar_def text_input_def session_getitem_def connect_eq form_uri_def
        io_return_def io_bind_def io_seq_def io_try_def emit_def Let_def
        split: prod.split sum.split)

subsection \<open>Executions of the script and sessions\<close>

lemma sidebar_outcome:
  "\<exists>s' evs. sidebar E u s = (Inr (), s') \<and> chat_history s' = chat_history s
      \<and> (db s' = db s \<or> (\<exists>h. db s' = Some (Some h)))
      \<and> log s' = log s @ evs \<and> (\<forall>ev \<in> set evs. \<not> is_llm_invoke ev)"
proof (cases "connect_clicked u")
  case False
  then show ?thesis
    by (simp add: sidebar_eq Let_def is_llm_invoke_def)
next
  case True
  obtain r w where f: "from_uri E (form_uri u) (ext s) = (r, w)" by fastforce
  show ?thesis using True f
    by (cases r) (simp_all add: sidebar_eq Let_def is_llm_invoke_def)
qed

lemma run_unfold:
  "run E app u s =
    (case sidebar E u (s\<lparr>log := log s @ [St_set_page_config ''Chat with Database'' '':speech_balloon:'',
                                          St_title ''Chat with Database'']\<rparr>) of
       (Inl e, s1) \<Rightarrow> (Inl e, s1)
     | (Inr x, s1) \<Rightarrow>
         (case display_chat_history s1 of
            (Inl e, s2) \<Rightarrow> (Inl e, s2)
          | (Inr y, s2) \<Rightarrow> handle_user_query E app u s2))"
  by (simp add: run_def io_bind_def io_seq_def emit_def split: prod.split sum.split)

lemma run_outcome:
  assumes "chat_history s = Some old" "db s \<noteq> None"
  shows "\<exists>r s' more evs.
      run E app u s = (r, s') \<and> chat_history s' = Some (old @ more) \<and> db s' \<noteq> None
      \<and> log s' = log s @ evs
      \<and> (\<forall>llm p. Llm_invoke llm p \<in> set evs \<longrightarrow> (\<exists>m. Val (Messages (old @ m)) \<in> set p))
      \<and> (\<not> submitted u \<longrightarrow> more = [] \<and> r = Inr ())
      \<and> (submitted u \<longrightarrow>
            (\<exists>q. chat u = Some q \<and>
               (if isl r \<or> db s' = Some None then more = [HumanMessage q]
                else \<exists>x. more = [HumanMessage q, AIMessage x])))"
proof -
  let ?pre = "[St_set_page_config ''Chat with Database'' '':speech_balloon:'',
              St_title ''Chat with Database'']"
  let ?s0 = "s\<lparr>log := log s @ ?pre\<rparr>"
  obtain sA evA where A: "sidebar E u ?s0 = (Inr (), sA)" "chat_history sA = Some old"
      "db sA \<noteq> None" "log sA = log s @ ?pre @ evA" "\<forall>ev \<in> set evA. \<not> is_llm_invoke ev"
    using sidebar_outcome[of E u ?s0] assms by auto
  obtain evB where B: "display_chat_history sA = (Inr (), sA\<lparr>log := log sA @ evB\<rparr>)"
      "\<forall>ev \<in> set evB. \<not> is_llm_invoke ev"
    using display_chat_history_eq[OF A(2)] by blast
  let ?sB = "sA\<lparr>log := log sA @ evB\<rparr>"
  obtain d where d: "db ?sB = Some d" using A(3) by auto
  have h: "chat_history ?sB = Some old" using A(2) by simp
  obtain r w evs more where
    C: "handle_user_query E app u ?sB
          = (r, ?sB\<lparr>chat_history := Some (old @ more), ext := w, log := log ?sB @ evs\<rparr>)"
    and P: "\<forall>llm p. Llm_invoke llm p \<in> set evs \<longrightarrow> (\<exists>m. Val (Messages (old @ m)) \<in> set p)"
    and N: "\<not> submitted u \<longrightarrow> more = [] \<and> r = Inr ()"
    and S: "submitted u \<longrightarrow>
            (\<exists>q. chat u = Some q \<and>
               (if isl r \<or> d = None then more = [HumanMessage q]
                else \<exists>x. more = [HumanMessage q, AIMessage x]))"
    using handle_user_query_outcome[OF h d, of E app u] by blast
  let ?sC = "?sB\<lparr>chat_history := Some (old @ more), ext := w, log := log ?sB @ evs\<rparr>"
  have R: "run E app u s = (r, ?sC)"
    by (simp add: run_unfold A(1) B(1) C)
  have L: "log ?sC = log s @ (?pre @ evA @ evB @ evs)" using A(4) by simp
  have D: "db ?sC = Some d" using d by simp
  have Q: "\<forall>llm p. Llm_invoke llm p \<in> set (?pre @ evA @ evB @ evs)
             \<longrightarrow> (\<exists>m. Val (Messages (old @ m)) \<in> set p)"
    using A(5) B(2) P by (auto simp: is_llm_invoke_def)
  show ?thesis
    apply (rule exI[of _ r], rule exI[of _ ?sC], rule exI[of _ more],
           rule exI[of _ "?pre @ evA @ evB @ evs"])
    using R L D Q N S by (simp del: append.simps)
qed

lemma script_outcome:
  "\<exists>r s' more evs.
      script E u s = (r, s') \<and> chat_history s' = Some (history s @ more) \<and> db s' \<noteq> None
      \<and> log s' = log s @ evs
      \<and> (\<forall>llm p. Llm_invoke llm p \<in> set evs \<longrightarrow> (\<exists>m. Val (Messages (history s @ m)) \<in> set p))
      \<and> (\<not> submitted u \<longrightarrow> more = [] \<and> r = Inr ())
      \<and> (submitted u \<longrightarrow>
            (\<exists>q. chat u = Some q \<and>
               (if isl r \<or> db s' = Some None then more = [HumanMessage q]
                else \<exists>x. more = [HumanMessage q, AIMessage x])))"
proof -
  let ?app = "\<lparr>app_gemini_api_key = getenv E ''GEMINI_API_KEY'',
               sql_assistant = \<lparr>gemini_api_key = getenv E ''GEMINI_API_KEY''\<rparr>\<rparr>"
  let ?s0 = "s\<lparr>chat_history := Some (history s),
               db := Some (case db s of None \<Rightarrow> None | Some d \<Rightarrow> d),
               connector_db := None, log := log s @ [Load_dotenv]\<rparr>"
  have 1: "script E u s = run E ?app u ?s0"
    by (simp add: script_def new_ChatApp_eq io_bind_def)
  have "chat_history ?s0 = Some (history s)" "db ?s0 \<noteq> None" by simp_all
  from run_outcome[OF this, of E ?app u] obtain r s' more evs where
    R: "run E ?app u ?s0 = (r, s')" "chat_history s' = Some (history s @ more)" "db s' \<noteq> None"
      "log s' = log ?s0 @ evs"
      "\<forall>llm p. Llm_invoke llm p \<in> set evs \<longrightarrow> (\<exists>m. Val (Messages (history s @ m)) \<in> set p)"
      "\<not> submitted u \<longrightarrow> more = [] \<and> r = Inr ()"
      "submitted u \<longrightarrow>
            (\<exists>q. chat u = Some q \<and>
               (if isl r \<or> db s' = Some None then more = [HumanMessage q]
                else \<exists>x. more = [HumanMessage q, AIMessage x]))"
    by blast
  show ?thesis
    apply (rule exI[of _ r], rule exI[of _ s'], rule exI[of _ more],
           rule exI[of _ "Load_dotenv # evs"])
    using 1 R by simp
qed


lemma session_append: "session E (us @ vs) s = session E vs (session E us s)"
  by (induction us arbitrary: s) simp_all

lemma history_Some: "chat_history s = Some old \<Longrightarrow> history s = old"
  by (simp add: history_def)

lemma session_extends:
  assumes "chat_history s = Some old"
  shows "\<exists>more evs.
      chat_history (session E us s) = Some (old @ more) \<and> log (session E us s) = log s @ evs
      \<and> (\<forall>llm p. Llm_invoke llm p \<in> set evs \<longrightarrow> (\<exists>m. Val (Messages (old @ m)) \<in> set p))"
  using assms
proof (induction us arbitrary: s old)
  case Nil
  then show ?case by (intro exI[of _ "[]"]) simp
next
  case (Cons u us)
  from script_outcome[of E u s] Cons.prems obtain r s' a ea where
    st: "script E u s = (r, s')" "chat_history s' = Some (old @ a)" "log s' = log s @ ea"
       "\<forall>llm p. Llm_invoke llm p \<in> set ea \<longrightarrow> (\<exists>m. Val (Messages (old @ m)) \<in> set p)"
    by (auto simp: history_Some)
  from Cons.IH[OF st(2)] obtain b eb where
    ih: "chat_history (session E us s') = Some ((old @ a) @ b)"
       "log (session E us s') = log s' @ eb"
       "\<forall>llm p. Llm_invoke llm p \<in> set eb \<longrightarrow> (\<exists>m. Val (Messages ((old @ a) @ m)) \<in> set p)"
    by blast
  have both: "\<forall>llm p. Llm_invoke llm p \<in> set (ea @ eb) \<longrightarrow> (\<exists>m. Val (Messages (old @ m)) \<in> set p)"
  proof (intro allI impI)
    fix llm p assume "Llm_invoke llm p \<in> set (ea @ eb)"
    then consider "Llm_invoke llm p \<in> set ea" | "Llm_invoke llm p \<in> set eb" by auto
    then show "\<exists>m. Val (Messages (old @ m)) \<in> set p"
    proof cases
      case 1
      then show ?thesis using st(4) by blast
    next
      case 2
      then obtain m where "Val (Messages ((old @ a) @ m)) \<in> set p" using ih(3) by blast
      then show ?thesis by (intro exI[of _ "a @ m"]) simp
    qed
  qed
  show ?case
    apply (rule exI[of _ "a @ b"], rule exI[of _ "ea @ eb"])
    using st ih both by simp
qed

lemma turns_shape_pair [simp]:
  "turns_shape (HumanMessage q # AIMessage x # ms) = turns_shape ms"
  by simp

lemma script_step:
  "\<exists>a. chat_history (snd (script E u s)) = Some (history s @ a)
       \<and> length a = (if completed E u s then 2 else if submitted u then 1 else 0)
       \<and> (completed E u s \<longrightarrow> (\<exists>q x. a = [HumanMessage q, AIMessage x]))"
proof -
  from script_outcome[of E u s] obtain r s' a where
    st: "script E u s = (r, s')" and h: "chat_history s' = Some (history s @ a)"
    and n: "\<not> submitted u \<longrightarrow> a = [] \<and> r = Inr ()"
    and y: "submitted u \<longrightarrow>
            (\<exists>q. chat u = Some q \<and>
               (if isl r \<or> db s' = Some None then a = [HumanMessage q]
                else \<exists>x. a = [HumanMessage q, AIMessage x]))"
    by blast
  have r: "fst (script E u s) = r" "snd (script E u s) = s'" using st by simp_all
  have ru: "\<not> isl r \<longleftrightarrow> r = Inr ()" by (cases r) simp_all
  have c: "completed E u s \<longleftrightarrow> submitted u \<and> \<not> isl r \<and> db s' \<noteq> Some None"
    unfolding completed_def r ru ..
  have 1: "chat_history (snd (script E u s)) = Some (history s @ a)" unfolding r by (rule h)
  have 2: "length a = (if completed E u s then 2 else if submitted u then 1 else 0)"
  proof (cases "submitted u")
    case False
    then show ?thesis using n c by simp
  next
    case True
    with y obtain q where q: "if isl r \<or> db s' = Some None then a = [HumanMessage q]
                else \<exists>x. a = [HumanMessage q, AIMessage x]" by blast
    show ?thesis
    proof (cases "isl r \<or> db s' = Some None")
      case True
      then have "\<not> completed E u s" using c by blast
      moreover have "a = [HumanMessage q]" using q True by simp
      ultimately show ?thesis using \<open>submitted u\<close> by simp
    next
      case False
      then have "completed E u s" using c \<open>submitted u\<close> by blast
      moreover obtain x where "a = [HumanMessage q, AIMessage x]" using q False by auto
      ultimately show ?thesis by simp
    qed
  qed
  have 3: "completed E u s \<longrightarrow> (\<exists>q x. a = [HumanMessage q, AIMessage x])"
  proof
    assume "completed E u s"
    then have s: "submitted u" and f: "\<not> (isl r \<or> db s' = Some None)" using c by blast+
    from y s obtain q where "if isl r \<or> db s' = Some None then a = [HumanMessage q]
                else \<exists>x. a = [HumanMessage q, AIMessage x]" by blast
    with f show "\<exists>q x. a = [HumanMessage q, AIMessage x]" by auto
  qed
  from 1 2 3 show ?thesis by blast
qed


lemma session_length:
  assumes "chat_history s = Some old"
  shows "\<exists>more. chat_history (session E us s) = Some (old @ more)
      \<and> length more = 2 * completed_turns E us s + unanswered E us s
      \<and> (unanswered E us s = 0 \<longrightarrow> turns_shape more)"
  using assms
proof (induction us arbitrary: s old)
  case Nil
  then show ?case by simp
next
  case (Cons u us)
  let ?s' = "snd (script E u s)"
  have hs: "history s = old" using Cons.prems by (rule history_Some)
  from script_step[of E u s] obtain a where
    st: "chat_history ?s' = Some (old @ a)"
    and la: "length a = (if completed E u s then 2 else if submitted u then 1 else 0)"
    and sa: "completed E u s \<longrightarrow> (\<exists>q x. a = [HumanMessage q, AIMessage x])"
    unfolding hs by (elim exE conjE) (rule that)
  from Cons.IH[OF st] obtain b where
    ih: "chat_history (session E us ?s') = Some ((old @ a) @ b)"
    and lb: "length b = 2 * completed_turns E us ?s' + unanswered E us ?s'"
    and sb: "unanswered E us ?s' = 0 \<longrightarrow> turns_shape b"
    by (elim exE conjE) (rule that)
  have cs: "completed E u s \<Longrightarrow> submitted u" by (simp add: completed_def)
  have 1: "chat_history (session E (u # us) s) = Some (old @ (a @ b))" using ih by simp
  have 2: "length (a @ b) = 2 * completed_turns E (u # us) s + unanswered E (u # us) s"
  proof (cases "completed E u s")
    case True
    then show ?thesis using la lb cs by simp
  next
    case False
    then show ?thesis using la lb by simp
  qed
  have 3: "unanswered E (u # us) s = 0 \<longrightarrow> turns_shape (a @ b)"
  proof
    assume u0: "unanswered E (u # us) s = 0"
    then have t: "turns_shape b" using sb by (simp split: if_splits)
    from u0 have c: "submitted u \<Longrightarrow> completed E u s" by (simp split: if_splits)
    show "turns_shape (a @ b)"
    proof (cases "submitted u")
      case True
      with c sa obtain q x where "a = [HumanMessage q, AIMessage x]" by blast
      with t show ?thesis by simp
    next
      case False
      then have "\<not> completed E u s" using cs by blast
      with False la have "a = []" by simp
      with t show ?thesis by simp
    qed
  qed
  show ?case
    by (rule exI[of _ "a @ b"]) (use 1 2 3 in simp)
qed

subsection \<open>The chat input\<close>

text \<open>
  Claim C10. An empty chat input is a no-op: when \<^verbatim>\<open>st.chat_input\<close> returns
  \<^verbatim>\<open>None\<close> or the empty string, \<^verbatim>\<open>handle_user_query\<close> returns without raising and
  leaves the state as it was but for the log, which gains the drawing of the input box: no
  message of either role is appended, no library call is made (the world is unchanged, so
  the assistant is not invoked), and the history and the handle are unchanged.
\<close>

theorem empty_input_noop:
  assumes "chat u = None \<or> chat u = Some []"
  shows "handle_user_query E self u s
           = (Inr (), s\<lparr>log := log s @ [St_chat_input ''Type a message...'']\<rparr>)"
  using assms by (rule handle_user_query_idle)

text \<open>The theorem at an empty line submitted in a connected session.\<close>

theorem empty_input_noop_witness:
  "(chat ui_empty = None \<or> chat ui_empty = Some [])
   \<and> handle_user_query demo_env demo_app ui_empty demo_connected
       = (Inr (), demo_connected\<lparr>log := log demo_connected @ [St_chat_input ''Type a message...'']\<rparr>)"
  using empty_input_noop[of ui_empty demo_env demo_app demo_connected]
  by (simp add: ui_empty_def)

text \<open>
  Claim C2. When the session holds no handle (\<^verbatim>\<open>st.session_state.db\<close> is
  \<^verbatim>\<open>None\<close>) and the user submits a chat message, \<^verbatim>\<open>handle_user_query\<close> appends the
  user's message to the history and nothing else, shows the message and the notice that the
  database is not connected, and makes no library call: the world is unchanged and the log
  gains five Streamlit calls, so \<^verbatim>\<open>generate_response\<close> is not invoked.
\<close>

theorem no_handle_no_assistant:
  assumes "chat u = Some q" "q \<noteq> []" "chat_history s = Some old" "db s = Some None"
  shows "handle_user_query E self u s =
    (Inr (), s\<lparr>chat_history := Some (old @ [HumanMessage q]),
               log := log s @ [St_chat_input ''Type a message...'', St_chat_message ''Human'',
                               St_markdown q, St_chat_message ''AI'',
                               St_error ''Database not connected. Please connect to the database first.'']\<rparr>)"
  using assms by (rule handle_user_query_no_handle)

text \<open>The theorem at a question asked before any connection.\<close>

theorem no_handle_no_assistant_witness:
  "chat ui_question = Some ''How many rows?'' \<and> ''How many rows?'' \<noteq> []
   \<and> chat_history demo_started = Some [AIMessage greeting] \<and> db demo_started = Some None
   \<and> handle_user_query demo_env demo_app ui_question demo_started =
    (Inr (), demo_started\<lparr>chat_history := Some ([AIMessage greeting] @ [HumanMessage ''How many rows?'']),
               log := log demo_started @ [St_chat_input ''Type a message...'', St_chat_message ''Human'',
                               St_markdown ''How many rows?'', St_chat_message ''AI'',
                               St_error ''Database not connected. Please connect to the database first.'']\<rparr>)"
  using no_handle_no_assistant[of ui_question "''How many rows?''" demo_started "[AIMessage greeting]"
      demo_env demo_app]
  by (simp add: ui_question_def demo_started_def)

subsection \<open>The Connect action\<close>

text \<open>
  Claim C5. For all contents of the five fields: when Connect is pressed and the connect
  attempt raises, the sidebar catches the exception where it calls \<^verbatim>\<open>connect\<close>, returns
  without raising and shows \<^verbatim>\<open>Failed to connect: \<close> followed by the exception's text.
  \<^verbatim>\<open>st.session_state.db\<close> is not assigned: it keeps the value it had, so a session
  without a handle stays without one; the connector's field and the history are unchanged as
  well.
\<close>

theorem failed_connect_keeps_session:
  assumes "connect_clicked u" and "from_uri E (form_uri u) (ext s) = (Inl e, w)"
  shows "fst (sidebar E u s) = Inr ()
       \<and> db (snd (sidebar E u s)) = db s
       \<and> (db s = Some None \<longrightarrow> db (snd (sidebar E u s)) = Some None)
       \<and> connector_db (snd (sidebar E u s)) = connector_db s
       \<and> chat_history (snd (sidebar E u s)) = chat_history s
       \<and> new_events s (snd (sidebar E u s)) =
           [Sidebar_subheader ''Settings'',
            Sidebar_text_input ''Host'' ''localhost'' False,
            Sidebar_text_input ''Port'' ''3306'' False,
            Sidebar_text_input ''User'' ''root'' False,
            Sidebar_text_input ''Password'' ''admin'' True,
            Sidebar_text_input ''Database'' ''chinook'' False,
            Sidebar_button ''Connect'',
            St_spinner ''Connecting to database...'',
            From_uri (form_uri u), Raised e,
            St_error (''Failed to connect: '' @ str_exn e)]"
  using assms by (simp add: sidebar_eq Let_def new_events_def)

text \<open>The theorem at a database that refuses the connection, in a session without a handle.\<close>

theorem failed_connect_keeps_session_witness:
  "connect_clicked ui_connect
   \<and> from_uri refusing_env (form_uri ui_connect) (ext demo_started) = (Inl (LibraryError ''Access denied''), 0)
   \<and> fst (sidebar refusing_env ui_connect demo_started) = Inr ()
   \<and> db (snd (sidebar refusing_env ui_connect demo_started)) = Some None
   \<and> last (new_events demo_started (snd (sidebar refusing_env ui_connect demo_started)))
       = St_error ''Failed to connect: Access denied''"
  using failed_connect_keeps_session[of ui_connect refusing_env demo_started
      "LibraryError ''Access denied''" 0]
  by (simp add: ui_connect_def refusing_env_def demo_env_def demo_started_def)

subsection \<open>A user turn\<close>

text \<open>
  Claim C9. On a user turn with a handle, \<^verbatim>\<open>handle_user_query\<close> appends the user's
  message to the session's history first and then invokes \<^verbatim>\<open>generate_response\<close> on the
  question and on that already extended history (the state it runs in holds the same
  history). Every prompt sent to the model during the turn therefore carries a history
  whose last message is the current question, which \<^verbatim>\<open>generate_response\<close> is given
  as its question parameter as well.
\<close>

theorem question_in_history:
  assumes "chat u = Some q" "q \<noteq> []" "chat_history s = Some old" "db s = Some (Some h)"
  shows "handle_user_query E self u s =
          (case generate_response E (sql_assistant self) q h (old @ [HumanMessage q])
                  (s\<lparr>chat_history := Some (old @ [HumanMessage q]),
                     log := log s @ [St_chat_input ''Type a message...'', St_chat_message ''Human'',
                                     St_markdown q, St_chat_message ''AI'']\<rparr>) of
             (Inl e, s') \<Rightarrow> (Inl e, s')
           | (Inr r, s') \<Rightarrow>
               (Inr (), s'\<lparr>chat_history := Some (old @ [HumanMessage q, AIMessage r]),
                           log := log s' @ [St_markdown r]\<rparr>))
       \<and> (\<forall>llm p. Llm_invoke llm p \<in> set (new_events s (snd (handle_user_query E self u s)))
             \<longrightarrow> Val (Messages (old @ [HumanMessage q])) \<in> set p)"
proof -
  let ?pre = "[St_chat_input ''Type a message...'', St_chat_message ''Human'',
               St_markdown q, St_chat_message ''AI'']"
  let ?s1 = "s\<lparr>chat_history := Some (old @ [HumanMessage q]), log := log s @ ?pre\<rparr>"
  note eq = handle_user_query_turn[OF assms, of E self]
  obtain r w evs where g:
    "generate_response E (sql_assistant self) q h (old @ [HumanMessage q]) ?s1
      = (r, ?s1\<lparr>ext := w, log := log ?s1 @ evs\<rparr>)"
    and hst: "\<forall>llm p. Llm_invoke llm p \<in> set evs \<longrightarrow> Val (Messages (old @ [HumanMessage q])) \<in> set p"
    using generate_response_frame[of E "sql_assistant self" q h "old @ [HumanMessage q]" ?s1]
    by blast
  have "new_events s (snd (handle_user_query E self u s)) = ?pre @ evs
      \<or> (\<exists>x. new_events s (snd (handle_user_query E self u s)) = ?pre @ evs @ [St_markdown x])"
    using eq g by (cases r) (simp_all add: new_events_def)
  with hst have "\<forall>llm p. Llm_invoke llm p \<in> set (new_events s (snd (handle_user_query E self u s)))
             \<longrightarrow> Val (Messages (old @ [HumanMessage q])) \<in> set p"
    by auto
  with eq show ?thesis by (rule conjI)
qed

text \<open>The theorem at a question asked in a connected session.\<close>

theorem question_in_history_witness:
  "chat ui_question = Some ''How many rows?'' \<and> ''How many rows?'' \<noteq> []
   \<and> chat_history demo_connected = Some [AIMessage greeting] \<and> db demo_connected = Some (Some ())
   \<and> chat_history (snd (handle_user_query demo_env demo_app ui_question demo_connected))
       = Some [AIMessage greeting, HumanMessage ''How many rows?'', AIMessage ''There are 3 rows.'']"
  using question_in_history[of ui_question "''How many rows?''" demo_connected "[AIMessage greeting]"
      "()" demo_env demo_app]
  by (simp add: generate_response_eq response_chain_eq demo_env_def demo_assistant_def demo_app_def
        demo_started_def demo_connected_def ui_question_def)

text \<open>
  Claim C4. When the \<^verbatim>\<open>generate_response\<close> of a turn returns the fixed error string,
  that string is appended to the history as an assistant message, right after the user's
  message. It stays there: after any further executions of the script the history still
  begins with the history of the failed turn, and every prompt sent to the model in them
  carries a history that begins with it, error text included.
\<close>

theorem error_reply_persisted:
  assumes "chat u = Some q" "q \<noteq> []" "chat_history s = Some old" "db s = Some (Some h)"
    and "fst (generate_response E (sql_assistant self) q h (old @ [HumanMessage q])
                (s\<lparr>chat_history := Some (old @ [HumanMessage q]),
                   log := log s @ [St_chat_input ''Type a message...'', St_chat_message ''Human'',
                                   St_markdown q, St_chat_message ''AI'']\<rparr>))
         = Inr error_message"
  shows "chat_history (snd (handle_user_query E self u s))
           = Some (old @ [HumanMessage q, AIMessage error_message])
       \<and> (\<forall>us. \<exists>more evs.
             chat_history (session E us (snd (handle_user_query E self u s)))
               = Some (old @ [HumanMessage q, AIMessage error_message] @ more)
           \<and> log (session E us (snd (handle_user_query E self u s)))
               = log (snd (handle_user_query E self u s)) @ evs
           \<and> (\<forall>llm p. Llm_invoke llm p \<in> set evs \<longrightarrow>
                 (\<exists>m. Val (Messages (old @ [HumanMessage q, AIMessage error_message] @ m)) \<in> set p)))"
proof -
  let ?pre = "[St_chat_input ''Type a message...'', St_chat_message ''Human'',
               St_markdown q, St_chat_message ''AI'']"
  let ?s1 = "s\<lparr>chat_history := Some (old @ [HumanMessage q]), log := log s @ ?pre\<rparr>"
  let ?s2 = "snd (handle_user_query E self u s)"
  note eq = handle_user_query_turn[OF assms(1-4), of E self]
  obtain s' where g:
    "generate_response E (sql_assistant self) q h (old @ [HumanMessage q]) ?s1
      = (Inr error_message, s')"
    using assms(5) by (metis prod.collapse)
  have h: "chat_history ?s2 = Some (old @ [HumanMessage q, AIMessage error_message])"
    using eq g by simp
  have "\<exists>more evs.
             chat_history (session E us ?s2)
               = Some (old @ [HumanMessage q, AIMessage error_message] @ more)
           \<and> log (session E us ?s2) = log ?s2 @ evs
           \<and> (\<forall>llm p. Llm_invoke llm p \<in> set evs \<longrightarrow>
                 (\<exists>m. Val (Messages (old @ [HumanMessage q, AIMessage error_message] @ m)) \<in> set p))"
    for us
    using session_extends[OF h, of E us] by simp
  with h show ?thesis by blast
qed

text \<open>The theorem at a turn on which the model rejects the call.\<close>

theorem error_reply_persisted_witness:
  "chat ui_question = Some ''How many rows?'' \<and> ''How many rows?'' \<noteq> []
   \<and> chat_history demo_connected = Some [AIMessage greeting] \<and> db demo_connected = Some (Some ())
   \<and> fst (generate_response quota_env (sql_assistant demo_app) ''How many rows?'' ()
             ([AIMessage greeting] @ [HumanMessage ''How many rows?''])
             (demo_connected\<lparr>chat_history := Some ([AIMessage greeting] @ [HumanMessage ''How many rows?'']),
                log := log demo_connected @ [St_chat_input ''Type a message...'', St_chat_message ''Human'',
                                   St_markdown ''How many rows?'', St_chat_message ''AI'']\<rparr>))
         = Inr error_message
   \<and> chat_history (snd (handle_user_query quota_env demo_app ui_question demo_connected))
       = Some [AIMessage greeting, HumanMessage ''How many rows?'', AIMessage error_message]"
  using error_reply_persisted[of ui_question "''How many rows?''" demo_connected "[AIMessage greeting]"
      "()" quota_env demo_app]
  by (simp add: generate_response_eq response_chain_eq quota_env_def demo_env_def
        demo_assistant_def demo_app_def demo_started_def demo_connected_def ui_question_def)

subsection \<open>The history of a session\<close>

text \<open>
  Claim C3, as stated, fails: a message submitted before the session holds a handle is
  appended without an answer, so after one completed turn the history can hold four messages,
  not three.
\<close>

theorem history_mixed_counterexample:
  "completed_turns demo_env [ui_question, ui_connect, ui_question] demo_state = 1
   \<and> chat_history (session demo_env [ui_question, ui_connect, ui_question] demo_state)
       = Some [AIMessage greeting, HumanMessage ''How many rows?'',
               HumanMessage ''How many rows?'', AIMessage ''There are 3 rows.'']"
  by (simp add: script_def new_ChatApp_eq run_unfold sidebar_eq Let_def history_def
      display_chat_history_def get_chat_history_def get_db_def append_message_def
      handle_user_query_def generate_response_eq response_chain_eq io_defs submitted_def
      completed_def demo_env_def ui_connect_def ui_question_def demo_state_def fresh_def)

text \<open>
  Claim C3, amended. A session starts from nothing and executes the script once per
  interaction. After any executions its history is the fixed greeting followed by the
  messages appended since: two for every completed turn with a handle present and one for
  every other submitted message, \<open>1 + 2N + M\<close> in all. When every submitted message was a
  completed turn, these are \<open>N\<close> pairs of a user message and an assistant message,
  \<open>1 + 2N\<close> messages. In every session the history after any earlier execution is a prefix
  of the later one: no execution edits, removes or reorders a message.
\<close>

theorem history_append_only:
  "\<exists>msgs.
      chat_history (session E (u # us) (fresh w)) = Some (AIMessage greeting # msgs)
      \<and> length (AIMessage greeting # msgs)
          = 1 + 2 * completed_turns E (u # us) (fresh w) + unanswered E (u # us) (fresh w)
      \<and> (unanswered E (u # us) (fresh w) = 0 \<longrightarrow> turns_shape msgs)
      \<and> (\<forall>n. \<exists>old. chat_history (session E (take (Suc n) (u # us)) (fresh w)) = Some old
                 \<and> prefix old (AIMessage greeting # msgs))"
proof -
  let ?g = "AIMessage greeting"
  let ?f = "fresh w :: ('a, 'b) state"
  let ?s' = "snd (script E u ?f)"
  have g: "history ?f = [?g]" by (simp add: history_def fresh_def)
  from script_step[of E u ?f] obtain a where
    st: "chat_history ?s' = Some ([?g] @ a)"
    and la: "length a = (if completed E u ?f then 2 else if submitted u then 1 else 0)"
    and sa: "completed E u ?f \<longrightarrow> (\<exists>q x. a = [HumanMessage q, AIMessage x])"
    unfolding g by (elim exE conjE) (rule that)
  from session_length[OF st, of E us] obtain b where
    ih: "chat_history (session E us ?s') = Some (([?g] @ a) @ b)"
    and lb: "length b = 2 * completed_turns E us ?s' + unanswered E us ?s'"
    and sb: "unanswered E us ?s' = 0 \<longrightarrow> turns_shape b"
    by (elim exE conjE) (rule that)
  have cs: "completed E u ?f \<Longrightarrow> submitted u" by (simp add: completed_def)
  have 1: "chat_history (session E (u # us) ?f) = Some (?g # (a @ b))" using ih by simp
  have 2: "length (?g # (a @ b))
      = 1 + 2 * completed_turns E (u # us) ?f + unanswered E (u # us) ?f"
  proof (cases "completed E u ?f")
    case True
    then show ?thesis using la lb cs by simp
  next
    case False
    then show ?thesis using la lb by simp
  qed
  have 3: "unanswered E (u # us) ?f = 0 \<longrightarrow> turns_shape (a @ b)"
  proof
    assume u0: "unanswered E (u # us) ?f = 0"
    then have t: "turns_shape b" using sb by (simp split: if_splits)
    from u0 have c: "submitted u \<Longrightarrow> completed E u ?f" by (simp split: if_splits)
    show "turns_shape (a @ b)"
    proof (cases "submitted u")
      case True
      with c sa obtain q x where "a = [HumanMessage q, AIMessage x]" by blast
      with t show ?thesis by simp
    next
      case False
      then have "\<not> completed E u ?f" using cs by blast
      with False la have "a = []" by simp
      with t show ?thesis by simp
    qed
  qed
  have 4: "\<exists>old. chat_history (session E (take (Suc n) (u # us)) ?f) = Some old
                 \<and> prefix old (?g # (a @ b))" for n
  proof -
    obtain m1 where m1: "chat_history (session E (take n us) ?s') = Some (([?g] @ a) @ m1)"
      using session_extends[OF st, of E "take n us"] by blast
    obtain m2 where "chat_history (session E (drop n us) (session E (take n us) ?s'))
        = Some ((([?g] @ a) @ m1) @ m2)"
      using session_extends[OF m1, of E "drop n us"] by blast
    then have "chat_history (session E us ?s') = Some ((([?g] @ a) @ m1) @ m2)"
      using session_append[of E "take n us" "drop n us" ?s'] by simp
    with ih have "([?g] @ a) @ b = (([?g] @ a) @ m1) @ m2" by simp
    then have "prefix (([?g] @ a) @ m1) (?g # (a @ b))" by (simp add: prefix_def)
    moreover have "chat_history (session E (take (Suc n) (u # us)) ?f) = Some (([?g] @ a) @ m1)"
      using m1 by simp
    ultimately show ?thesis by blast
  qed
  show ?thesis
    by (rule exI[of _ "a @ b"]) (use 1 2 3 4 in simp)
qed

text \<open>
  The theorem at a session of three executions: a press on Connect and two questions.
\<close>

lemma demo_two_turns:
  "unanswered demo_env [ui_connect, ui_question, ui_question] (fresh 0) = 0"
  "completed_turns demo_env [ui_connect, ui_question, ui_question] (fresh 0) = 2"
  by (simp_all add: script_def new_ChatApp_eq run_unfold sidebar_eq Let_def history_def
      display_chat_history_def get_chat_history_def get_db_def append_message_def
      handle_user_query_def generate_response_eq response_chain_eq io_defs submitted_def
      completed_def demo_env_def ui_connect_def ui_question_def demo_state_def fresh_def)

theorem history_append_only_witness:
  "unanswered demo_env [ui_connect, ui_question, ui_question] demo_state = 0
   \<and> (\<exists>msgs. chat_history (session demo_env [ui_connect, ui_question, ui_question] demo_state)
                 = Some (AIMessage greeting # msgs)
             \<and> length (AIMessage greeting # msgs) = 5 \<and> turns_shape msgs)"
  using history_append_only[of demo_env ui_connect "[ui_question, ui_question]" 0] demo_two_turns
  unfolding demo_state_def by auto

end
